theory Spec2Isabelle
  imports Main "HOL-Library.Monad_Syntax" "HOL-Library.Sublist"
begin

section \<open>Values of the JavaScript runtime\<close>

text \<open>
  \<^verbatim>\<open>parseAIResponse\<close> works on whatever \<^verbatim>\<open>JSON.parse\<close> returns, so the elements of
  the array are untyped runtime values, not records. The datatype lists the values
  \<^verbatim>\<open>JSON.parse\<close> can build, \<^verbatim>\<open>undefined\<close> (the result of reading an absent property)
  and the built-in members every object literal inherits from \<^verbatim>\<open>Object.prototype\<close>
  (\<open>JNative\<close>, named by its property key).

  A number is kept as the text \<^verbatim>\<open>ToString\<close> gives for it (\<^verbatim>\<open>0\<close> and \<^verbatim>\<open>-0\<close> both
  read \<^verbatim>\<open>"0"\<close>): the code only tests numbers for truthiness, compares them with
  strings and uses them as property keys. The own properties of an object are an
  association list with distinct keys. Strings are byte strings; the characters the
  code inspects are ASCII.
\<close>

datatype js_value =
    JUndefined
  | JNull
  | JBool bool
  | JNum string
  | JStr string
  | JArr "js_value list"
  | JObj "(string \<times> js_value) list"
  | JNative string

text \<open>\<^verbatim>\<open>!v\<close> is \<open>\<not> ToBoolean v\<close>.\<close>

fun ToBoolean :: "js_value \<Rightarrow> bool" where
  "ToBoolean JUndefined = False"
| "ToBoolean JNull = False"
| "ToBoolean (JBool b) = b"
| "ToBoolean (JNum s) = (s \<noteq> ''0'' \<and> s \<noteq> ''NaN'')"
| "ToBoolean (JStr s) = (s \<noteq> [])"
| "ToBoolean (JArr xs) = True"
| "ToBoolean (JObj kvs) = True"
| "ToBoolean (JNative k) = True"

text \<open>The members of \<^verbatim>\<open>Object.prototype\<close>; each is a function or an object, hence truthy.\<close>

definition Object_prototype_keys :: "string list" where
  "Object_prototype_keys =
     [''constructor'', ''__defineGetter__'', ''__defineSetter__'', ''hasOwnProperty'',
      ''__lookupGetter__'', ''__lookupSetter__'', ''isPrototypeOf'',
      ''propertyIsEnumerable'', ''toString'', ''valueOf'', ''__proto__'',
      ''toLocaleString'']"

text \<open>
  \<^verbatim>\<open>o[key]\<close> on an ordinary object whose prototype is \<^verbatim>\<open>Object.prototype\<close>: the own
  property if there is one, else the inherited member, else \<^verbatim>\<open>undefined\<close>.
\<close>

definition Get :: "(string \<times> js_value) list \<Rightarrow> string \<Rightarrow> js_value" where
  "Get props key =
     (case map_of props key of
        Some v \<Rightarrow> v
      | None \<Rightarrow> if key \<in> set Object_prototype_keys then JNative key else JUndefined)"

text \<open>
  \<^verbatim>\<open>v.name\<close> on any value, \<open>None\<close> standing for the \<^verbatim>\<open>TypeError\<close> raised on
  \<^verbatim>\<open>null\<close> and \<^verbatim>\<open>undefined\<close>. For booleans, numbers, strings and arrays the result is
  exact for the six field names the code reads, none of which is a member of a
  built-in prototype.
\<close>

fun GetV :: "js_value \<Rightarrow> string \<Rightarrow> js_value option" where
  "GetV JUndefined name = None"
| "GetV JNull name = None"
| "GetV (JObj props) name = Some (Get props name)"
| "GetV v name = Some JUndefined"

text \<open>\<^verbatim>\<open>Array.prototype.join\<close> on strings already converted.\<close>

fun join :: "string \<Rightarrow> string list \<Rightarrow> string" where
  "join sep [] = []"
| "join sep [x] = x"
| "join sep (x # y # ys) = x @ sep @ join sep (y # ys)"

text \<open>
  \<^verbatim>\<open>ToPropertyKey\<close>, the conversion \<^verbatim>\<open>typeMappings[event.type]\<close> applies to its index;
  \<open>None\<close> is the \<^verbatim>\<open>TypeError\<close> of an object whose own \<^verbatim>\<open>toString\<close> property (parsed
  data, so not callable) hides the inherited method. An array joins its elements
  with commas, \<^verbatim>\<open>null\<close> and \<^verbatim>\<open>undefined\<close> elements reading as empty.
\<close>

fun ToPropertyKey :: "js_value \<Rightarrow> string option" where
  "ToPropertyKey JUndefined = Some ''undefined''"
| "ToPropertyKey JNull = Some ''null''"
| "ToPropertyKey (JBool b) = Some (if b then ''true'' else ''false'')"
| "ToPropertyKey (JNum s) = Some s"
| "ToPropertyKey (JStr s) = Some s"
| "ToPropertyKey (JArr xs) =
     map_option (join '','')
       (those (map (\<lambda>x. if x = JUndefined \<or> x = JNull then Some [] else ToPropertyKey x) xs))"
| "ToPropertyKey (JObj props) =
     (if ''toString'' \<in> fst ` set props then None else Some ''[object Object]'')"
| "ToPropertyKey (JNative k) =
     Some (if k = ''__proto__'' then ''[object Object]''
           else ''function '' @ k @ ''() { [native code] }'')"

text \<open>
  \<^verbatim>\<open>list.includes(v)\<close> on a list of strings: strict comparison, so only a string can
  be found.
\<close>

fun Array_includes :: "string list \<Rightarrow> js_value \<Rightarrow> bool" where
  "Array_includes xs (JStr s) = (s \<in> set xs)"
| "Array_includes xs v = False"

text \<open>A natural number in decimal digits, as string conversion and date formatting print it.\<close>

function decimal :: "nat \<Rightarrow> string" where
  "decimal n =
     (if n < 10 then [''0123456789'' ! n]
      else decimal (n div 10) @ [''0123456789'' ! (n mod 10)])"
  by pat_completeness auto
termination
  by (relation "measure (\<lambda>n. n)") auto

declare decimal.simps [simp del]

section \<open>The response normalizer: \<^verbatim>\<open>AIService.parseAIResponse\<close>\<close>

record CreateMarketEvent =
  date :: js_value
  event :: js_value
  type :: js_value
  description :: js_value
  significance :: js_value
  market_sentiment :: js_value
  citations :: "string list option"

definition validSignificance :: "string list" where
  "validSignificance = [''High'', ''Medium'', ''Low'']"

definition validSentiment :: "string list" where
  "validSentiment = [''Bullish'', ''Bearish'', ''Neutral'', ''Mixed'']"

definition validTypes :: "string list" where
  "validTypes = [''Economic'', ''Fed'', ''Crypto'', ''Retail/Geopolitical'', ''Holiday'',
                 ''Geopolitical'', ''Corporate'']"

definition typeMappings :: "(string \<times> js_value) list" where
  "typeMappings =
     [(''US Economic Data'', JStr ''Economic''),
      (''Economic Data'', JStr ''Economic''),
      (''Federal Reserve'', JStr ''Fed''),
      (''Fed Meeting'', JStr ''Fed''),
      (''FOMC'', JStr ''Fed''),
      (''Cryptocurrency'', JStr ''Crypto''),
      (''Crypto Event'', JStr ''Crypto''),
      (''Retail Sales'', JStr ''Retail/Geopolitical''),
      (''Geopolitical Event'', JStr ''Geopolitical''),
      (''Holiday'', JStr ''Holiday''),
      (''Corporate Earnings'', JStr ''Corporate''),
      (''Corporate Event'', JStr ''Corporate'')]"

text \<open>
  \<^verbatim>\<open>response.match\<close> with the pattern of the source, an opening bracket, any run of
  characters (line breaks included) and a closing bracket: the match starts at the
  leftmost \<^verbatim>\<open>[\<close> and, the star being greedy, runs up to the last \<^verbatim>\<open>]\<close> after it;
  there is no match when no \<^verbatim>\<open>]\<close> follows.
\<close>

definition jsonMatch :: "string \<Rightarrow> string option" where
  "jsonMatch response =
     (let rest = dropWhile (\<lambda>c. c \<noteq> CHR ''['') response
      in if CHR '']'' \<in> set rest
         then Some (rev (dropWhile (\<lambda>c. c \<noteq> CHR '']'') (rev rest)))
         else None)"

text \<open>
  The body of the \<^verbatim>\<open>for\<close> loop for one element: \<open>None\<close> when the element is not
  pushed, that is on either \<^verbatim>\<open>continue\<close> and when the inner \<^verbatim>\<open>catch\<close> swallows a
  \<^verbatim>\<open>TypeError\<close>. The six reads are done first; they are pure, and on \<^verbatim>\<open>null\<close> the first
  of them already throws.
\<close>

definition validateEvent :: "string list \<Rightarrow> js_value \<Rightarrow> CreateMarketEvent option" where
  "validateEvent citations_arg ev = do {
     d \<leftarrow> GetV ev ''date'';
     e \<leftarrow> GetV ev ''event'';
     t \<leftarrow> GetV ev ''type'';
     ds \<leftarrow> GetV ev ''description'';
     s \<leftarrow> GetV ev ''significance'';
     m \<leftarrow> GetV ev ''marketSentiment'';
     if \<not> ToBoolean d \<or> \<not> ToBoolean e \<or> \<not> ToBoolean t \<or> \<not> ToBoolean ds
        \<or> \<not> ToBoolean s \<or> \<not> ToBoolean m
     then None
     else if \<not> Array_includes validSignificance s \<or> \<not> Array_includes validSentiment m
     then None
     else do {
       key \<leftarrow> ToPropertyKey t;
       let normalizedType =
         (if ToBoolean (Get typeMappings key) then Get typeMappings key
          else if \<not> Array_includes validTypes t then JStr ''Economic''
          else t);
       Some \<lparr> date = d, event = e, type = normalizedType, description = ds,
              significance = s, market_sentiment = m,
              citations = (if length citations_arg > 0 then Some citations_arg else None) \<rparr>
     }
   }"

text \<open>The loop, pushing onto \<^verbatim>\<open>validEvents\<close>.\<close>

fun validEvents_loop ::
  "string list \<Rightarrow> js_value list \<Rightarrow> CreateMarketEvent list \<Rightarrow> CreateMarketEvent list" where
  "validEvents_loop citations_arg [] validEvents = validEvents"
| "validEvents_loop citations_arg (ev # evs) validEvents =
     (case validateEvent citations_arg ev of
        None \<Rightarrow> validEvents_loop citations_arg evs validEvents
      | Some v \<Rightarrow> validEvents_loop citations_arg evs (validEvents @ [v]))"

text \<open>
  The function itself. \<^verbatim>\<open>JSON.parse\<close> belongs to the runtime and is a parameter:
  \<open>Inl msg\<close> is its \<^verbatim>\<open>SyntaxError\<close>. A result \<open>Inl msg\<close> of the function is the
  \<^verbatim>\<open>Error\<close> it throws, with that message; the outer \<^verbatim>\<open>catch\<close> rewraps every failure.
\<close>

definition parseAIResponse ::
  "(string \<Rightarrow> string + js_value) \<Rightarrow> string \<Rightarrow> string list \<Rightarrow> string + CreateMarketEvent list" where
  "parseAIResponse JSON_parse response citations_arg =
     (case
        (case jsonMatch response of
           None \<Rightarrow> Inl ''No JSON array found in AI response''
         | Some m \<Rightarrow>
             (case JSON_parse m of
                Inl msg \<Rightarrow> Inl msg
              | Inr (JArr events) \<Rightarrow>
                  (let validEvents = validEvents_loop citations_arg events []
                   in if length validEvents = 0
                      then Inl ''No valid events found in AI response''
                      else Inr validEvents)
              | Inr _ \<Rightarrow> Inl ''AI response is not a valid array''))
      of
        Inl msg \<Rightarrow> Inl (''Failed to parse AI response: '' @ msg)
      | Inr validEvents \<Rightarrow> Inr validEvents)"

text \<open>
  What \<^verbatim>\<open>JSON.parse\<close> returns on the two texts the examples below use: the empty
  array, and a model answer of two elements, the second with a significance outside
  the allowed values. The table has no other entry and reports a syntax error
  elsewhere; the general statements never use it.
\<close>

definition sample_span :: string where
  "sample_span =
     ''[{\"date\":\"December 1 2025\",\"event\":\"ISM PMI\",\"type\":\"FOMC\",\"description\":\"PMI release\",\"significance\":\"High\",\"marketSentiment\":\"Mixed\"},{\"date\":\"December 2 2025\",\"event\":\"Storm\",\"type\":\"Weather Event\",\"description\":\"Landfall\",\"significance\":\"Extreme\",\"marketSentiment\":\"Mixed\"}]''"

definition sample_event_fomc :: js_value where
  "sample_event_fomc =
     JObj [(''date'', JStr ''December 1 2025''), (''event'', JStr ''ISM PMI''),
           (''type'', JStr ''FOMC''), (''description'', JStr ''PMI release''),
           (''significance'', JStr ''High''), (''marketSentiment'', JStr ''Mixed'')]"

definition sample_event_extreme :: js_value where
  "sample_event_extreme =
     JObj [(''date'', JStr ''December 2 2025''), (''event'', JStr ''Storm''),
           (''type'', JStr ''Weather Event''), (''description'', JStr ''Landfall''),
           (''significance'', JStr ''Extreme''), (''marketSentiment'', JStr ''Mixed'')]"

definition sample_events :: "js_value list" where
  "sample_events = [sample_event_fomc, sample_event_extreme]"

definition JSON_parse_sample :: "string \<Rightarrow> string + js_value" where
  "JSON_parse_sample text =
     (if text = ''[]'' then Inr (JArr [])
      else if text = sample_span then Inr (JArr sample_events)
      else Inl ''Unexpected token'')"

section \<open>The deduplicating ingestor: \<^verbatim>\<open>MarketEventsService.createEvents\<close>\<close>

record MarketEvent = CreateMarketEvent +
  event_id :: "string option"
  created_at :: "string option"
  updated_at :: "string option"

text \<open>
  What awaiting
  \<^verbatim>\<open>supabase.from('market_events').select('*').eq('event', e).eq('date', d).single()\<close>
  can give: the row, an \<^verbatim>\<open>error\<close> object with its code and message, or a rejected
  promise.
\<close>

datatype single_response = Row MarketEvent | Failed string string | Rejected

text \<open>
  The two calls \<^verbatim>\<open>createEvents\<close> makes on the client, over a store state \<open>'db\<close>. The
  query reads the state; the insert returns \<^verbatim>\<open>data\<close> or the error's message, and the
  next state.
\<close>

record 'db supabase_client =
  select_single :: "'db \<Rightarrow> js_value \<Rightarrow> js_value \<Rightarrow> single_response"
  insert_select :: "'db \<Rightarrow> CreateMarketEvent list \<Rightarrow> (string + MarketEvent list) \<times> 'db"

definition findExistingEvent ::
  "'db supabase_client \<Rightarrow> 'db \<Rightarrow> CreateMarketEvent \<Rightarrow> MarketEvent option" where
  "findExistingEvent supabase db eventData =
     (case select_single supabase db (event eventData) (date eventData) of
        Failed code message \<Rightarrow> (if code = ''PGRST116'' then None else None)
      | Rejected \<Rightarrow> None
      | Row data \<Rightarrow> Some data)"

text \<open>
  The \<^verbatim>\<open>for\<close> loop of \<^verbatim>\<open>createEvents\<close>. Nothing is written before the loop ends, so
  every check reads the same state.
\<close>

fun dedup_loop ::
  "'db supabase_client \<Rightarrow> 'db \<Rightarrow> CreateMarketEvent list \<Rightarrow> CreateMarketEvent list \<Rightarrow> nat
     \<Rightarrow> CreateMarketEvent list \<times> nat" where
  "dedup_loop supabase db [] uniqueEvents skippedCount = (uniqueEvents, skippedCount)"
| "dedup_loop supabase db (eventData # rest) uniqueEvents skippedCount =
     (case findExistingEvent supabase db eventData of
        Some existingEvent \<Rightarrow> dedup_loop supabase db rest uniqueEvents (skippedCount + 1)
      | None \<Rightarrow> dedup_loop supabase db rest (uniqueEvents @ [eventData]) skippedCount)"

record createEvents_result =
  created :: "MarketEvent list"
  skipped :: nat

definition createEvents ::
  "'db supabase_client \<Rightarrow> 'db \<Rightarrow> CreateMarketEvent list
     \<Rightarrow> (string + createEvents_result) \<times> 'db" where
  "createEvents supabase db eventsData =
     (case dedup_loop supabase db eventsData [] 0 of
        (uniqueEvents, skippedCount) \<Rightarrow>
          if length uniqueEvents = 0
          then (Inr \<lparr> created = [], skipped = skippedCount \<rparr>, db)
          else (case insert_select supabase db uniqueEvents of
                  (Inl message, db') \<Rightarrow>
                    (Inl (''Failed to create market events: '' @ message), db')
                | (Inr data, db') \<Rightarrow>
                    (Inr \<lparr> created = data, skipped = skippedCount \<rparr>, db')))"

subsection \<open>The \<^verbatim>\<open>market_events\<close> table\<close>

text \<open>
  One client, for the examples: the table of the repository's SQL schema as a list
  of rows. The schema declares a primary key on \<^verbatim>\<open>id\<close> and no uniqueness over
  \<^verbatim>\<open>(event, date)\<close>, so an insert appends every row it is given; identifiers are opaque
  and the model numbers the rows. A singular request answers with the row when
  exactly one row passes both filters and with error \<^verbatim>\<open>PGRST116\<close> when none or several
  do. The candidates are taken to satisfy the column constraints, as values of the
  declared type \<^verbatim>\<open>CreateMarketEvent\<close> do.
\<close>

definition table_row :: "string \<Rightarrow> nat \<Rightarrow> CreateMarketEvent \<Rightarrow> MarketEvent" where
  "table_row now n c =
     CreateMarketEvent.extend c
       \<lparr> event_id = Some (decimal n), created_at = Some now, updated_at = Some now \<rparr>"

definition table_single :: "MarketEvent list \<Rightarrow> js_value \<Rightarrow> js_value \<Rightarrow> single_response" where
  "table_single db e d =
     (case filter (\<lambda>r. event r = e \<and> date r = d) db of
        [r] \<Rightarrow> Row r
      | _ \<Rightarrow> Failed ''PGRST116'' ''JSON object requested, multiple (or no) rows returned'')"

definition table_insert ::
  "string \<Rightarrow> MarketEvent list \<Rightarrow> CreateMarketEvent list
     \<Rightarrow> (string + MarketEvent list) \<times> MarketEvent list" where
  "table_insert now db cs =
     (let data = map (\<lambda>(i, c). table_row now (length db + i) c) (enumerate 0 cs)
      in (Inr data, db @ data))"

definition table_client :: "string \<Rightarrow> MarketEvent list supabase_client" where
  "table_client now = \<lparr> select_single = table_single, insert_select = table_insert now \<rparr>"

subsection \<open>Candidates, rows and clients for the examples\<close>

definition candidate_pmi :: CreateMarketEvent where
  "candidate_pmi =
     \<lparr> date = JStr ''December 1 2025'', event = JStr ''ISM PMI'', type = JStr ''Economic'',
       description = JStr ''PMI release'', significance = JStr ''High'',
       market_sentiment = JStr ''Mixed'', citations = Some [''https://example.com''] \<rparr>"

text \<open>The same event and date as \<open>candidate_pmi\<close>, the other fields different.\<close>

definition candidate_pmi_revised :: CreateMarketEvent where
  "candidate_pmi_revised =
     \<lparr> date = JStr ''December 1 2025'', event = JStr ''ISM PMI'', type = JStr ''Economic'',
       description = JStr ''Revised text'', significance = JStr ''Medium'',
       market_sentiment = JStr ''Neutral'', citations = None \<rparr>"

definition candidate_cpi :: CreateMarketEvent where
  "candidate_cpi =
     \<lparr> date = JStr ''December 3 2025'', event = JStr ''US CPI'', type = JStr ''Economic'',
       description = JStr ''Inflation print'', significance = JStr ''High'',
       market_sentiment = JStr ''Bearish'', citations = None \<rparr>"

definition candidate_fomc :: CreateMarketEvent where
  "candidate_fomc =
     \<lparr> date = JStr ''December 4 2025'', event = JStr ''FOMC minutes'', type = JStr ''Fed'',
       description = JStr ''Minutes released'', significance = JStr ''Medium'',
       market_sentiment = JStr ''Neutral'', citations = None \<rparr>"

definition first_run :: string where
  "first_run = ''2025-11-30T09:00:00Z''"

definition second_run :: string where
  "second_run = ''2025-12-07T09:00:00Z''"

text \<open>Rows as the first run leaves them, and as the second run adds them.\<close>

definition stored_pmi :: MarketEvent where
  "stored_pmi = table_row first_run 0 candidate_pmi"

definition stored_pmi_revised :: MarketEvent where
  "stored_pmi_revised = table_row first_run 1 candidate_pmi_revised"

definition stored_cpi :: MarketEvent where
  "stored_cpi = table_row first_run 1 candidate_cpi"

definition added_pmi :: MarketEvent where
  "added_pmi = table_row second_run 2 candidate_pmi"

definition added_pmi_revised :: MarketEvent where
  "added_pmi_revised = table_row second_run 3 candidate_pmi_revised"

definition added_fomc :: MarketEvent where
  "added_fomc = table_row second_run 3 candidate_fomc"

text \<open>The row a second run adds to a table that holds \<open>stored_pmi\<close> alone.\<close>

definition readded_pmi :: MarketEvent where
  "readded_pmi = table_row second_run 1 candidate_pmi"

text \<open>
  The table behind a connection on which every existence check for one event name
  fails in transport; inserts go through.
\<close>

definition flaky_client :: "string \<Rightarrow> js_value \<Rightarrow> MarketEvent list supabase_client" where
  "flaky_client now bad =
     \<lparr> select_single =
         (\<lambda>db e d. if e = bad then Failed [] ''TypeError: fetch failed'' else table_single db e d),
       insert_select = table_insert now \<rparr>"

section \<open>Dates, the week start and the prompt\<close>

text \<open>
  The calendar fields of a \<^verbatim>\<open>Date\<close> in the local time zone (\<^verbatim>\<open>getFullYear\<close>,
  \<^verbatim>\<open>getMonth\<close> counted from 0, \<^verbatim>\<open>getDate\<close>), and the calendar arithmetic of the
  language specification on them. The week start is computed on these fields from
  today's date. The \<^verbatim>\<open>Date\<close> objects the prompt is built from, with their time value,
  range and time zone, follow further down.
\<close>

record JSDate =
  fullYear :: int
  monthIndex :: nat
  dayOfMonth :: nat

definition leap_year :: "int \<Rightarrow> bool" where
  "leap_year y = (y mod 4 = 0 \<and> (y mod 100 \<noteq> 0 \<or> y mod 400 = 0))"

definition DaysInMonth :: "int \<Rightarrow> nat \<Rightarrow> int" where
  "DaysInMonth y m =
     (if m = 1 then (if leap_year y then 29 else 28)
      else if m = 3 \<or> m = 5 \<or> m = 8 \<or> m = 10 then 30
      else 31)"

definition valid_date :: "JSDate \<Rightarrow> bool" where
  "valid_date d =
     (monthIndex d < 12 \<and> 1 \<le> dayOfMonth d
      \<and> int (dayOfMonth d) \<le> DaysInMonth (fullYear d) (monthIndex d))"

text \<open>
  The day number of the language specification: \<^verbatim>\<open>DayFromYear\<close> is the number of the
  first day of a year, counted from 1 January 1970, and \<^verbatim>\<open>WeekDay\<close>, which \<^verbatim>\<open>getDay\<close>
  returns, is the day number plus 4 modulo 7, Sunday being 0.
\<close>

definition DayFromYear :: "int \<Rightarrow> int" where
  "DayFromYear y =
     365 * (y - 1970) + (y - 1969) div 4 - (y - 1901) div 100 + (y - 1601) div 400"

primrec days_before_month :: "int \<Rightarrow> nat \<Rightarrow> int" where
  "days_before_month y 0 = 0"
| "days_before_month y (Suc m) = days_before_month y m + DaysInMonth y m"

definition Day :: "JSDate \<Rightarrow> int" where
  "Day d =
     DayFromYear (fullYear d) + days_before_month (fullYear d) (monthIndex d)
     + int (dayOfMonth d) - 1"

text \<open>The day number of the first day of the month a date lies in.\<close>

definition month_start :: "JSDate \<Rightarrow> int" where
  "month_start d = DayFromYear (fullYear d) + days_before_month (fullYear d) (monthIndex d)"

definition getDate :: "JSDate \<Rightarrow> int" where
  "getDate d = int (dayOfMonth d)"

definition getDay :: "JSDate \<Rightarrow> int" where
  "getDay d = (Day d + 4) mod 7"

definition previous_month :: "JSDate \<Rightarrow> JSDate" where
  "previous_month d =
     (if monthIndex d = 0 then d\<lparr> fullYear := fullYear d - 1, monthIndex := 11 \<rparr>
      else d\<lparr> monthIndex := monthIndex d - 1 \<rparr>)"

definition next_month :: "JSDate \<Rightarrow> JSDate" where
  "next_month d =
     (if monthIndex d \<ge> 11 then d\<lparr> fullYear := fullYear d + 1, monthIndex := 0 \<rparr>
      else d\<lparr> monthIndex := monthIndex d + 1 \<rparr>)"

text \<open>
  \<^verbatim>\<open>setDate(n)\<close>: the \<open>n\<close>-th day counted from the first of the month, running over
  into the following months when \<open>n\<close> is past the end of the month and back into
  the preceding ones when \<open>n\<close> is below 1.
\<close>

function setDate :: "JSDate \<Rightarrow> int \<Rightarrow> JSDate" where
  "setDate d n =
     (if n < 1 then
        setDate (previous_month d)
          (n + DaysInMonth (fullYear (previous_month d)) (monthIndex (previous_month d)))
      else if n > DaysInMonth (fullYear d) (monthIndex d) then
        setDate (next_month d) (n - DaysInMonth (fullYear d) (monthIndex d))
      else d\<lparr> dayOfMonth := nat n \<rparr>)"
  by pat_completeness auto
termination
  by (relation "measure (\<lambda>(d, n). if n < 1 then nat (1 - n) + 32 else nat n)")
     (auto simp: DaysInMonth_def)

declare setDate.simps [simp del]

text \<open>
  \<^verbatim>\<open>getCurrentWeekStart\<close>, with \<^verbatim>\<open>new Date()\<close> as the argument \<open>today\<close>, and the choice
  \<^verbatim>\<open>weekStart || this.getCurrentWeekStart()\<close> of \<^verbatim>\<open>generateWeeklyMarketEvents\<close> (a \<^verbatim>\<open>Date\<close>
  object is always truthy).
\<close>

definition getCurrentWeekStart :: "JSDate \<Rightarrow> JSDate" where
  "getCurrentWeekStart today = setDate today (getDate today - getDay today)"

definition targetWeek :: "JSDate option \<Rightarrow> JSDate \<Rightarrow> JSDate" where
  "targetWeek weekStart today =
     (case weekStart of Some w \<Rightarrow> w | None \<Rightarrow> getCurrentWeekStart today)"

subsection \<open>\<^verbatim>\<open>Date\<close> objects\<close>

text \<open>
  A \<^verbatim>\<open>Date\<close> object holds a time value, the milliseconds from the start of 1 January
  1970 UTC, or is an Invalid Date. \<^verbatim>\<open>TimeClip\<close> turns a time beyond 8.64e15 in either
  direction into the Invalid Date.
\<close>

datatype Date = InvalidDate | TimeValue int

definition msPerDay :: int where
  "msPerDay = 86400000"

definition TimeClip :: "int \<Rightarrow> Date" where
  "TimeClip time = (if \<bar>time\<bar> > 8640000000000000 then InvalidDate else TimeValue time)"

text \<open>
  The time zone of the process is a parameter, in the form the language specification
  gives it: \<open>LocalTZA t True\<close> is the offset of local time at the instant \<open>t\<close>, and
  \<open>LocalTZA t False\<close> the offset by which the local time \<open>t\<close> is read (for a local time
  that a change of offset skips, the offset before the change).
\<close>

definition LocalTime :: "(int \<Rightarrow> bool \<Rightarrow> int) \<Rightarrow> int \<Rightarrow> int" where
  "LocalTime LocalTZA t = t + LocalTZA t True"

definition UTC :: "(int \<Rightarrow> bool \<Rightarrow> int) \<Rightarrow> int \<Rightarrow> int" where
  "UTC LocalTZA t = t - LocalTZA t False"

text \<open>
  The calendar date with a given day number (\<^verbatim>\<open>YearFromTime\<close>, \<^verbatim>\<open>MonthFromTime\<close> and
  \<^verbatim>\<open>DateFromTime\<close> at once), found by counting the days from 1 January 1970, and the
  local calendar date of an instant.
\<close>

definition civil :: "int \<Rightarrow> JSDate" where
  "civil n = setDate \<lparr> fullYear = 1970, monthIndex = 0, dayOfMonth = 1 \<rparr> (n + 1)"

definition local_date :: "(int \<Rightarrow> bool \<Rightarrow> int) \<Rightarrow> int \<Rightarrow> JSDate" where
  "local_date LocalTZA t = civil (LocalTime LocalTZA t div msPerDay)"

text \<open>
  \<^verbatim>\<open>MakeDay\<close> for the year and month of a calendar date: the day number of the first
  of that month, plus the date, minus one.
\<close>

definition MakeDay :: "JSDate \<Rightarrow> int \<Rightarrow> int" where
  "MakeDay f dt = month_start f + dt - 1"

text \<open>
  \<^verbatim>\<open>getDate()\<close> and \<^verbatim>\<open>setDate(dt)\<close> on a \<^verbatim>\<open>Date\<close> object; \<open>None\<close> is \<^verbatim>\<open>NaN\<close>. \<^verbatim>\<open>setDate\<close>
  keeps the local time of day, converts the new local time to an instant and clips
  it.
\<close>

definition Date_getDate :: "(int \<Rightarrow> bool \<Rightarrow> int) \<Rightarrow> Date \<Rightarrow> int option" where
  "Date_getDate LocalTZA d =
     (case d of
        InvalidDate \<Rightarrow> None
      | TimeValue tv \<Rightarrow> Some (getDate (local_date LocalTZA tv)))"

definition Date_setDate :: "(int \<Rightarrow> bool \<Rightarrow> int) \<Rightarrow> Date \<Rightarrow> int option \<Rightarrow> Date" where
  "Date_setDate LocalTZA d dt =
     (case d of
        InvalidDate \<Rightarrow> InvalidDate
      | TimeValue tv \<Rightarrow>
          (case dt of
             None \<Rightarrow> InvalidDate
           | Some n \<Rightarrow>
               (let t = LocalTime LocalTZA tv;
                    newDate = MakeDay (civil (t div msPerDay)) n * msPerDay + t mod msPerDay
                in TimeClip (UTC LocalTZA newDate))))"

text \<open>
  \<^verbatim>\<open>toLocaleDateString('en-US', {month: 'long', day: 'numeric', year: 'numeric'})\<close> on
  the local calendar date: the month's name, the day, a comma and the year, as in
  \<^verbatim>\<open>December 1, 2025\<close>. A year before 1 is printed by its number in its era. On the
  Invalid Date the result is the text \<^verbatim>\<open>Invalid Date\<close>.
\<close>

definition monthNames :: "string list" where
  "monthNames =
     [''January'', ''February'', ''March'', ''April'', ''May'', ''June'', ''July'',
      ''August'', ''September'', ''October'', ''November'', ''December'']"

definition en_US_long_date :: "JSDate \<Rightarrow> string" where
  "en_US_long_date d =
     monthNames ! monthIndex d @ '' '' @ decimal (dayOfMonth d) @ '', ''
     @ decimal (nat (if fullYear d > 0 then fullYear d else 1 - fullYear d))"

definition formatDate :: "(int \<Rightarrow> bool \<Rightarrow> int) \<Rightarrow> Date \<Rightarrow> string" where
  "formatDate LocalTZA d =
     (case d of
        InvalidDate \<Rightarrow> ''Invalid Date''
      | TimeValue tv \<Rightarrow> en_US_long_date (local_date LocalTZA tv))"

text \<open>
  The number a run of decimal digits stands for, read from the left; it is used to
  say what a printed date shows.
\<close>

definition decimal_value :: "string \<Rightarrow> nat" where
  "decimal_value s = foldl (\<lambda>a c. 10 * a + (of_char c - 48)) 0 s"

text \<open>
  Time zones for the examples: a fixed offset, and an offset that goes from ten hours
  behind UTC to fourteen hours ahead at 10:00 UTC on 30 December 2011, so that local
  time passes from the end of 29 December to the start of 31 December, as it did in
  Samoa.
\<close>

definition fixed_zone :: "int \<Rightarrow> int \<Rightarrow> bool \<Rightarrow> int" where
  "fixed_zone offset t isUTC = offset"

definition dateline_zone :: "int \<Rightarrow> bool \<Rightarrow> int" where
  "dateline_zone t isUTC =
     (if isUTC then (if t < 1325239200000 then - 36000000 else 50400000)
      else (if t < 1325289600000 then - 36000000 else 50400000))"

text \<open>
  The fixed text of the template literal of \<^verbatim>\<open>buildMarketEventsPrompt\<close>: what
  precedes the first date, and what follows the second, paragraph by paragraph.
\<close>

definition prompt_intro :: string where
  "prompt_intro =
     ''You are a financial analyst researching CURRENT market-moving '' @
     ''events. Use web_search and x_search tools to find real-time '' @
     ''information about significant events happening THIS WEEK (''"

definition prompt_close :: string where
  "prompt_close =
     '').\<newline>\<newline>''"

definition prompt_research :: string where
  "prompt_research =
     ''RESEARCH INSTRUCTIONS:\<newline>'' @
     ''1. Use web_search to find official economic calendars, central '' @
     ''bank announcements, corporate earnings, and geopolitical '' @
     ''developments\<newline>'' @
     ''2. Use x_search to check recent Twitter discussions about '' @
     ''market-moving events, breaking news, and analyst commentary\<newline>'' @
     ''3. Focus on events that will actually occur this week - not '' @
     ''hypothetical future events\<newline>'' @
     ''4. Look for specific dates, times, and expected outcomes\<newline>\<newline>''"

definition prompt_event_types :: string where
  "prompt_event_types =
     ''EVENT TYPES TO RESEARCH:\<newline>'' @
     ''- Economic data releases (GDP, inflation, employment, PMI, '' @
     ''etc.)\<newline>'' @
     ''- Central bank meetings, rate decisions, and press conferences\<newline>'' @
     ''- Corporate earnings reports and guidance\<newline>'' @
     ''- Geopolitical developments, trade talks, conflicts\<newline>'' @
     ''- Regulatory announcements and policy changes\<newline>'' @
     ''- Major conferences, summits, or technological releases\<newline>'' @
     ''- Market holidays and closures\<newline>\<newline>''"

definition prompt_fields :: string where
  "prompt_fields =
     ''For each event you find through research, provide:\<newline>'' @
     ''1. Date (exact date like \"December 1 2025\" or date range like '' @
     ''\"December 1-3 2025\")\<newline>'' @
     ''2. Event name (official name)\<newline>'' @
     ''3. Type (descriptive category based on your research)\<newline>'' @
     ''4. Description & Potential Impact (what it is, when it happens, '' @
     ''expected outcomes, market impact)\<newline>'' @
     ''5. Significance (High, Medium, Low based on historical market '' @
     ''impact)\<newline>'' @
     ''6. Market Sentiment (Bullish, Bearish, Neutral, Mixed based on '' @
     ''expected outcome)\<newline>\<newline>''"

definition prompt_format :: string where
  "prompt_format =
     ''Format your response as a valid JSON array. Use the tools to '' @
     ''ensure accuracy and timeliness.\<newline>\<newline>''"

definition prompt_example :: string where
  "prompt_example =
     ''Example format:\<newline>'' @
     ''[\<newline>'' @
     ''  {\<newline>'' @
     ''    \"date\": \"December 1 2025\",\<newline>'' @
     ''    \"event\": \"US ISM Manufacturing PMI\",\<newline>'' @
     ''    \"type\": \"Economic\",\<newline>'' @
     ''    \"description\": \"Manufacturing activity indicator released '' @
     ''at 10:00 AM ET. Expected 48.5 vs previous 47.8. Key gauge of US '' @
     ''manufacturing health.\",\<newline>'' @
     ''    \"significance\": \"High\",\<newline>'' @
     ''    \"marketSentiment\": \"Mixed\"\<newline>'' @
     ''  }\<newline>'' @
     '']\<newline>\<newline>''"

definition prompt_valid_types :: string where
  "prompt_valid_types =
     ''Valid event types: \"Economic\", \"Fed\", \"Crypto\", '' @
     ''\"Retail/Geopolitical\", \"Holiday\", \"Geopolitical\", \"Corporate\"\<newline>\<newline>''"

definition prompt_request :: string where
  "prompt_request =
     ''Generate 10-15 events based on your research findings. Focus on '' @
     ''events with confirmed dates this week.''"

definition prompt_rest :: string where
  "prompt_rest =
     prompt_close @ prompt_research @ prompt_event_types @ prompt_fields
     @ prompt_format @ prompt_example @ prompt_valid_types @ prompt_request"

text \<open>
  The copy \<^verbatim>\<open>weekEnd\<close> the function makes of its argument and moves by
  \<^verbatim>\<open>setDate(targetWeek.getDate() + 6)\<close>; the argument itself is not changed.
\<close>

definition weekEnd :: "(int \<Rightarrow> bool \<Rightarrow> int) \<Rightarrow> Date \<Rightarrow> Date" where
  "weekEnd LocalTZA targetWeek_arg =
     Date_setDate LocalTZA targetWeek_arg
       (map_option (\<lambda>n. n + 6) (Date_getDate LocalTZA targetWeek_arg))"

definition buildMarketEventsPrompt :: "(int \<Rightarrow> bool \<Rightarrow> int) \<Rightarrow> Date \<Rightarrow> string" where
  "buildMarketEventsPrompt LocalTZA targetWeek_arg =
     prompt_intro @ formatDate LocalTZA targetWeek_arg @ '' to ''
     @ formatDate LocalTZA (weekEnd LocalTZA targetWeek_arg) @ prompt_rest"

section \<open>Properties of the normalizer\<close>

subsection \<open>The loop keeps the surviving elements in order\<close>

lemma validEvents_loop_eq:
  "validEvents_loop c evs acc = acc @ List.map_filter (validateEvent c) evs"
  by (induction evs arbitrary: acc) (simp_all split: option.splits)

subsection \<open>The regular expression\<close>

lemma dropWhile_bracket_cases:
  "dropWhile (\<lambda>c. c \<noteq> CHR ''['') s = [] \<or>
   (\<exists>r. dropWhile (\<lambda>c. c \<noteq> CHR ''['') s = CHR ''['' # r)"
  by (induction s) simp_all

lemma jsonMatch_in_rest:
  assumes "jsonMatch response \<noteq> None"
  shows "CHR '']'' \<in> set (dropWhile (\<lambda>c. c \<noteq> CHR ''['') response)"
proof (rule ccontr)
  assume "\<not> ?thesis"
  then have "jsonMatch response = None"
    unfolding jsonMatch_def Let_def by (rule if_not_P)
  with assms show False by simp
qed

lemma jsonMatch_None:
  assumes "\<nexists>pre mid post. response = pre @ [CHR ''[''] @ mid @ [CHR '']''] @ post"
  shows "jsonMatch response = None"
proof (rule ccontr)
  assume "jsonMatch response \<noteq> None"
  then have in_rest: "CHR '']'' \<in> set (dropWhile (\<lambda>c. c \<noteq> CHR ''['') response)"
    by (rule jsonMatch_in_rest)
  then have "dropWhile (\<lambda>c. c \<noteq> CHR ''['') response \<noteq> []"
    by (cases "dropWhile (\<lambda>c. c \<noteq> CHR ''['') response") simp_all
  then obtain r where rest_eq: "dropWhile (\<lambda>c. c \<noteq> CHR ''['') response = CHR ''['' # r"
    using dropWhile_bracket_cases [of response] by blast
  from in_rest have "CHR '']'' \<in> set r"
    unfolding rest_eq by simp
  then obtain mid post where r: "r = mid @ CHR '']'' # post"
    using split_list by fast
  have "takeWhile (\<lambda>c. c \<noteq> CHR ''['') response @ CHR ''['' # mid @ CHR '']'' # post = response"
    using takeWhile_dropWhile_id [of "\<lambda>c. c \<noteq> CHR ''[''" response]
    unfolding rest_eq r .
  then have "response = takeWhile (\<lambda>c. c \<noteq> CHR ''['') response @ [CHR ''[''] @ mid @ [CHR '']''] @ post"
    by simp
  with assms show False by blast
qed

lemma jsonMatch_span:
  "CHR '']'' \<in> set (dropWhile (\<lambda>c. c \<noteq> CHR ''['') (pre @ [CHR ''[''] @ mid @ [CHR '']''] @ post))"
  by (induction pre) simp_all

lemma jsonMatch_None_iff:
  "jsonMatch response = None \<longleftrightarrow>
   (\<nexists>pre mid post. response = pre @ [CHR ''[''] @ mid @ [CHR '']''] @ post)"
proof
  assume n: "jsonMatch response = None"
  show "\<nexists>pre mid post. response = pre @ [CHR ''[''] @ mid @ [CHR '']''] @ post"
  proof
    assume "\<exists>pre mid post. response = pre @ [CHR ''[''] @ mid @ [CHR '']''] @ post"
    then obtain pre mid post where "response = pre @ [CHR ''[''] @ mid @ [CHR '']''] @ post"
      by blast
    then have "CHR '']'' \<in> set (dropWhile (\<lambda>c. c \<noteq> CHR ''['') response)"
      using jsonMatch_span [of pre mid post] by simp
    then have "jsonMatch response \<noteq> None"
      by (simp add: jsonMatch_def Let_def)
    with n show False by simp
  qed
next
  assume "\<nexists>pre mid post. response = pre @ [CHR ''[''] @ mid @ [CHR '']''] @ post"
  then show "jsonMatch response = None" by (rule jsonMatch_None)
qed

text \<open>
  A match is a part of the response that starts with the first opening bracket and
  ends with the last closing bracket.
\<close>

lemma jsonMatch_Some_span:
  assumes "jsonMatch response = Some m"
  shows "\<exists>pre post. response = pre @ m @ post
           \<and> CHR ''['' \<notin> set pre \<and> CHR '']'' \<notin> set post
           \<and> m \<noteq> [] \<and> hd m = CHR ''['' \<and> last m = CHR '']''"
proof -
  define rest where "rest = dropWhile (\<lambda>c. c \<noteq> CHR ''['') response"
  define pre where "pre = takeWhile (\<lambda>c. c \<noteq> CHR ''['') response"
  define post where "post = rev (takeWhile (\<lambda>c. c \<noteq> CHR '']'') (rev rest))"
  from assms have "jsonMatch response \<noteq> None" by simp
  then have in_rest: "CHR '']'' \<in> set rest"
    unfolding rest_def by (rule jsonMatch_in_rest)
  with assms have m: "m = rev (dropWhile (\<lambda>c. c \<noteq> CHR '']'') (rev rest))"
    by (simp add: jsonMatch_def rest_def [symmetric])
  have "rev (rev rest) = rev (takeWhile (\<lambda>c. c \<noteq> CHR '']'') (rev rest)
                             @ dropWhile (\<lambda>c. c \<noteq> CHR '']'') (rev rest))"
    by (simp only: takeWhile_dropWhile_id)
  then have rest_split: "m @ post = rest"
    unfolding m post_def by (simp only: rev_append rev_rev_ident)
  have resp: "pre @ m @ post = response"
    unfolding rest_split pre_def rest_def by simp
  have no_open: "CHR ''['' \<notin> set pre"
    unfolding pre_def by (auto dest: set_takeWhileD)
  have no_close: "CHR '']'' \<notin> set post"
    unfolding post_def by (auto dest: set_takeWhileD)
  from in_rest have dn: "dropWhile (\<lambda>c. c \<noteq> CHR '']'') (rev rest) \<noteq> []"
    by (simp add: dropWhile_eq_Nil_conv)
  then have ne: "m \<noteq> []" unfolding m by simp
  from dn have "hd (dropWhile (\<lambda>c. c \<noteq> CHR '']'') (rev rest)) = CHR '']''"
    using hd_dropWhile [of "\<lambda>c. c \<noteq> CHR '']''" "rev rest"] by simp
  with dn have last_m: "last m = CHR '']''"
    unfolding m by (simp add: last_rev)
  from in_rest have "rest \<noteq> []" by (cases rest) simp_all
  then obtain r where "rest = CHR ''['' # r"
    using dropWhile_bracket_cases [of response] unfolding rest_def by blast
  with rest_split ne have hd_m: "hd m = CHR ''[''"
    by (cases m) auto
  from resp [symmetric] no_open no_close ne hd_m last_m show ?thesis
    by blast
qed

text \<open>
  Claim C3. A response in which no \<^verbatim>\<open>[\<close> is followed, anywhere later, by a \<^verbatim>\<open>]\<close>
  makes \<^verbatim>\<open>parseAIResponse\<close> throw, whatever the parser and the citations are; the
  message carries the reason that no JSON array was found, and no candidate is
  returned.
\<close>

theorem C3_no_span_is_parse_error:
  assumes "\<nexists>pre mid post. response = pre @ [CHR ''[''] @ mid @ [CHR '']''] @ post"
  shows "parseAIResponse JSON_parse response citations_arg =
           Inl ''Failed to parse AI response: No JSON array found in AI response''"
  using jsonMatch_None [OF assms] by (simp add: parseAIResponse_def)

theorem C3_no_span_is_parse_error_witness:
  "(\<nexists>pre mid post.
      ''Sorry ] nothing scheduled [ yet'' = pre @ [CHR ''[''] @ mid @ [CHR '']''] @ post)
   \<and> parseAIResponse JSON_parse_sample ''Sorry ] nothing scheduled [ yet''
         [''https://example.com'']
       = Inl ''Failed to parse AI response: No JSON array found in AI response''"
proof -
  have "jsonMatch ''Sorry ] nothing scheduled [ yet'' = None"
    by (simp add: jsonMatch_def)
  then have h: "\<nexists>pre mid post.
      ''Sorry ] nothing scheduled [ yet'' = pre @ [CHR ''[''] @ mid @ [CHR '']''] @ post"
    using jsonMatch_None_iff by blast
  show ?thesis
    using h C3_no_span_is_parse_error [OF h, of JSON_parse_sample "[''https://example.com'']"]
    by blast
qed

subsection \<open>Validation of one element\<close>

lemma typeMappings_values:
  "map_of typeMappings key = Some v \<Longrightarrow> v \<in> JStr ` set validTypes"
  by (simp add: typeMappings_def validTypes_def split: if_splits)

lemma Get_typeMappings_truthy:
  assumes "key \<notin> set Object_prototype_keys" "ToBoolean (Get typeMappings key)"
  shows "Get typeMappings key \<in> JStr ` set validTypes"
  using assms typeMappings_values [of key]
  by (cases "map_of typeMappings key") (simp_all add: Get_def)

lemma Array_includes_iff: "Array_includes xs v \<longleftrightarrow> v \<in> JStr ` set xs"
  by (cases v) auto

lemma GetV_truthy_obj:
  assumes "GetV ev name = Some v" "ToBoolean v"
  shows "\<exists>props. ev = JObj props"
  using assms by (cases ev) auto

lemma validateEvent_JObj:
  "validateEvent c (JObj props) =
     (if ToBoolean (Get props ''date'') \<and> ToBoolean (Get props ''event'') \<and> ToBoolean (Get props ''type'')
         \<and> ToBoolean (Get props ''description'') \<and> ToBoolean (Get props ''significance'')
         \<and> ToBoolean (Get props ''marketSentiment'')
         \<and> Array_includes validSignificance (Get props ''significance'')
         \<and> Array_includes validSentiment (Get props ''marketSentiment'')
      then (case ToPropertyKey (Get props ''type'') of
              None \<Rightarrow> None
            | Some key \<Rightarrow>
                Some \<lparr> date = Get props ''date'', event = Get props ''event'',
                       type = (if ToBoolean (Get typeMappings key) then Get typeMappings key
                               else if \<not> Array_includes validTypes (Get props ''type'') then JStr ''Economic''
                               else Get props ''type''),
                       description = Get props ''description'',
                       significance = Get props ''significance'',
                       market_sentiment = Get props ''marketSentiment'',
                       citations = (if length c > 0 then Some c else None) \<rparr>)
      else None)"
  by (simp add: validateEvent_def Let_def split: option.splits)

lemma validateEvent_not_obj:
  "(\<nexists>props. ev = JObj props) \<Longrightarrow> validateEvent c ev = None"
  by (cases ev) (simp_all add: validateEvent_def)

lemma validateEvent_Some_obj:
  assumes "validateEvent c ev = Some e"
  obtains props where "ev = JObj props"
  using assms validateEvent_not_obj [of ev c] by fastforce

lemma validateEvent_significance:
  assumes "validateEvent c ev = Some e"
  shows "significance e \<in> JStr ` set validSignificance"
proof -
  from assms obtain props where ev: "ev = JObj props" by (rule validateEvent_Some_obj)
  from assms show ?thesis
    unfolding ev validateEvent_JObj
    by (auto simp: Array_includes_iff split: if_splits option.splits)
qed

lemma validateEvent_market_sentiment:
  assumes "validateEvent c ev = Some e"
  shows "market_sentiment e \<in> JStr ` set validSentiment"
proof -
  from assms obtain props where ev: "ev = JObj props" by (rule validateEvent_Some_obj)
  from assms show ?thesis
    unfolding ev validateEvent_JObj
    by (auto simp: Array_includes_iff split: if_splits option.splits)
qed

lemma validateEvent_type:
  assumes "validateEvent c ev = Some e"
    and "GetV ev ''type'' = Some t" and "ToPropertyKey t = Some key"
    and "key \<notin> set Object_prototype_keys"
  shows "type e \<in> JStr ` set validTypes"
proof -
  from assms(1) obtain props where ev: "ev = JObj props" by (rule validateEvent_Some_obj)
  from assms(2) have t: "Get props ''type'' = t" by (simp add: ev)
  have econ: "JStr ''Economic'' \<in> JStr ` set validTypes"
    by (simp add: validTypes_def)
  from assms(1) have
    "type e = (if ToBoolean (Get typeMappings key) then Get typeMappings key
               else if \<not> Array_includes validTypes t then JStr ''Economic'' else t)"
    unfolding ev validateEvent_JObj t
    by (auto simp: assms(3) split: if_splits)
  then show ?thesis
    using Get_typeMappings_truthy [OF assms(4)] econ
    by (auto simp: Array_includes_iff split: if_splits)
qed

lemma normalizedType_rule:
  assumes "Get props ''type'' = JStr s" and "s \<noteq> []" and "s \<notin> set Object_prototype_keys"
    and "ToBoolean (Get props ''date'')" and "ToBoolean (Get props ''event'')"
    and "ToBoolean (Get props ''description'')"
    and "Array_includes validSignificance (Get props ''significance'')"
    and "Array_includes validSentiment (Get props ''marketSentiment'')"
  shows "\<exists>e. validateEvent c (JObj props) = Some e
           \<and> type e = (case map_of typeMappings s of
                         Some v \<Rightarrow> v
                       | None \<Rightarrow> if s \<in> set validTypes then JStr s else JStr ''Economic'')"
proof -
  have sig: "ToBoolean (Get props ''significance'')" "ToBoolean (Get props ''marketSentiment'')"
    using assms(7,8)
    by (auto simp: Array_includes_iff validSignificance_def validSentiment_def)
  have tm: "ToBoolean (Get typeMappings s) \<longleftrightarrow> map_of typeMappings s \<noteq> None"
    using assms(3) typeMappings_values [of s]
    by (cases "map_of typeMappings s") (auto simp: Get_def validTypes_def)
  show ?thesis
    unfolding validateEvent_JObj
    using assms sig tm
    by (cases "map_of typeMappings s") (auto simp: Get_def)
qed

lemma parseAIResponse_Inr:
  assumes "parseAIResponse JSON_parse response c = Inr result"
  shows "\<exists>m events. jsonMatch response = Some m \<and> JSON_parse m = Inr (JArr events)
           \<and> result = List.map_filter (validateEvent c) events \<and> result \<noteq> []"
  using assms
  by (auto simp: parseAIResponse_def validEvents_loop_eq Let_def
           split: option.splits sum.splits js_value.splits if_splits)

lemma length_map_filter_le: "length (List.map_filter f xs) \<le> length xs"
  by (induction xs) (auto split: option.splits)

lemma set_map_filter: "set (List.map_filter f xs) = {y. \<exists>x\<in>set xs. f x = Some y}"
  by (induction xs) (auto split: option.splits)

text \<open>
  Claim C2, as the code has it. Containing a valid JSON array is not enough for
  \<^verbatim>\<open>parseAIResponse\<close> to return (an example follows). Whenever it does return,
  the span from the first \<^verbatim>\<open>[\<close> to the last \<^verbatim>\<open>]\<close> parsed to an array, the result is not
  empty and no longer than that array, and every returned element has its
  significance among High, Medium, Low and its sentiment among Bullish, Bearish,
  Neutral, Mixed, and comes from an element of the array; its type is one of the
  seven canonical values provided the type of that element, read as a property key,
  is not the name of a member inherited from \<^verbatim>\<open>Object.prototype\<close>.
\<close>

theorem C2_successful_parse_invariants:
  assumes "parseAIResponse JSON_parse response c = Inr result"
  shows "\<exists>m events.
           jsonMatch response = Some m \<and> JSON_parse m = Inr (JArr events)
         \<and> result \<noteq> [] \<and> length result \<le> length events
         \<and> (\<forall>e\<in>set result.
               significance e \<in> JStr ` set validSignificance
             \<and> market_sentiment e \<in> JStr ` set validSentiment
             \<and> (\<exists>ev\<in>set events. validateEvent c ev = Some e
                  \<and> (\<forall>t key. GetV ev ''type'' = Some t \<longrightarrow> ToPropertyKey t = Some key
                        \<longrightarrow> key \<notin> set Object_prototype_keys
                        \<longrightarrow> type e \<in> JStr ` set validTypes)))"
proof -
  from parseAIResponse_Inr [OF assms] obtain m events where
    m: "jsonMatch response = Some m" and p: "JSON_parse m = Inr (JArr events)"
    and r: "result = List.map_filter (validateEvent c) events" and ne: "result \<noteq> []"
    by blast
  have len: "length result \<le> length events"
    unfolding r by (rule length_map_filter_le)
  have each: "significance e \<in> JStr ` set validSignificance
             \<and> market_sentiment e \<in> JStr ` set validSentiment
             \<and> (\<exists>ev\<in>set events. validateEvent c ev = Some e
                  \<and> (\<forall>t key. GetV ev ''type'' = Some t \<longrightarrow> ToPropertyKey t = Some key
                        \<longrightarrow> key \<notin> set Object_prototype_keys
                        \<longrightarrow> type e \<in> JStr ` set validTypes))"
    if "e \<in> set result" for e
  proof -
    from that obtain ev where ev: "ev \<in> set events" "validateEvent c ev = Some e"
      unfolding r set_map_filter by blast
    show ?thesis
      using ev validateEvent_significance [OF ev(2)] validateEvent_market_sentiment [OF ev(2)]
        validateEvent_type [OF ev(2)]
      by blast
  qed
  from m p ne len each show ?thesis by blast
qed

lemma sample_match:
  "jsonMatch (''Here is the data: '' @ sample_span @ '' Hope this helps.'') = Some sample_span"
  by (simp add: jsonMatch_def sample_span_def)

lemma sample_first:
  "validateEvent [''https://example.com''] sample_event_fomc =
     Some \<lparr> date = JStr ''December 1 2025'', event = JStr ''ISM PMI'', type = JStr ''Fed'',
            description = JStr ''PMI release'', significance = JStr ''High'',
            market_sentiment = JStr ''Mixed'', citations = Some [''https://example.com''] \<rparr>"
  by (simp add: sample_event_fomc_def sample_event_extreme_def validateEvent_JObj Get_def typeMappings_def
        validSignificance_def validSentiment_def validTypes_def Object_prototype_keys_def)

lemma sample_second:
  "validateEvent [''https://example.com''] sample_event_extreme = None"
  by (simp add: sample_event_fomc_def sample_event_extreme_def validateEvent_JObj Get_def
        validSignificance_def validSentiment_def Object_prototype_keys_def)

lemma sample_parse:
  "parseAIResponse JSON_parse_sample (''Here is the data: '' @ sample_span @ '' Hope this helps.'')
     [''https://example.com'']
   = Inr [\<lparr> date = JStr ''December 1 2025'', event = JStr ''ISM PMI'', type = JStr ''Fed'',
            description = JStr ''PMI release'', significance = JStr ''High'',
            market_sentiment = JStr ''Mixed'', citations = Some [''https://example.com''] \<rparr>]"
proof -
  have p: "JSON_parse_sample sample_span = Inr (JArr sample_events)"
    by (simp add: JSON_parse_sample_def sample_span_def)
  have l: "validEvents_loop [''https://example.com''] sample_events [] =
      [\<lparr> date = JStr ''December 1 2025'', event = JStr ''ISM PMI'', type = JStr ''Fed'',
            description = JStr ''PMI release'', significance = JStr ''High'',
            market_sentiment = JStr ''Mixed'', citations = Some [''https://example.com''] \<rparr>]"
    by (simp add: sample_events_def sample_first sample_second)
  show ?thesis
    unfolding parseAIResponse_def sample_match by (simp add: p l)
qed

text \<open>
  The response \<^verbatim>\<open>[]\<close> contains a valid JSON array, and the function throws instead of
  returning a sequence.
\<close>

theorem C2_counterexample:
  "jsonMatch ''[]'' = Some ''[]'' \<and> JSON_parse_sample ''[]'' = Inr (JArr [])
   \<and> parseAIResponse JSON_parse_sample ''[]'' []
       = Inl ''Failed to parse AI response: No valid events found in AI response''"
  by (simp add: jsonMatch_def JSON_parse_sample_def parseAIResponse_def)

text \<open>
  Claim C4. The type \<^verbatim>\<open>constructor\<close> is neither a key of the synonym table nor a
  canonical value, so the fallback \<^verbatim>\<open>Economic\<close> is what the claim asks for. The lookup
  \<^verbatim>\<open>typeMappings[event.type]\<close> finds the inherited member instead, which is truthy, and
  the element is emitted with that built-in as its type.
\<close>

theorem C4_inherited_name_bypasses_fallback:
  "map_of typeMappings ''constructor'' = None \<and> ''constructor'' \<notin> set validTypes
   \<and> validateEvent []
       (JObj [(''date'', JStr ''December 1 2025''), (''event'', JStr ''Budget vote''),
              (''type'', JStr ''constructor''), (''description'', JStr ''Senate vote''),
              (''significance'', JStr ''High''), (''marketSentiment'', JStr ''Mixed'')])
     = Some \<lparr> date = JStr ''December 1 2025'', event = JStr ''Budget vote'',
              type = JNative ''constructor'', description = JStr ''Senate vote'',
              significance = JStr ''High'', market_sentiment = JStr ''Mixed'',
              citations = None \<rparr>"
  by (simp add: validateEvent_JObj Get_def typeMappings_def
        validSignificance_def validSentiment_def validTypes_def Object_prototype_keys_def)

theorem C4_inherited_name_bypasses_fallback_witness:
  "\<exists>e. validateEvent []
         (JObj [(''date'', JStr ''December 1 2025''), (''event'', JStr ''Budget vote''),
                (''type'', JStr ''constructor''), (''description'', JStr ''Senate vote''),
                (''significance'', JStr ''High''), (''marketSentiment'', JStr ''Mixed'')])
       = Some e
     \<and> type e \<noteq> JStr ''Economic'' \<and> type e \<notin> JStr ` set validTypes"
  using C4_inherited_name_bypasses_fallback by auto

theorem C2_successful_parse_invariants_witness:
  "parseAIResponse JSON_parse_sample (''Here is the data: '' @ sample_span @ '' Hope this helps.'')
     [''https://example.com'']
   = Inr [\<lparr> date = JStr ''December 1 2025'', event = JStr ''ISM PMI'', type = JStr ''Fed'',
            description = JStr ''PMI release'', significance = JStr ''High'',
            market_sentiment = JStr ''Mixed'', citations = Some [''https://example.com''] \<rparr>]
   \<and> (\<exists>m events.
         jsonMatch (''Here is the data: '' @ sample_span @ '' Hope this helps.'') = Some m
       \<and> JSON_parse_sample m = Inr (JArr events)
       \<and> length [\<lparr> date = JStr ''December 1 2025'', event = JStr ''ISM PMI'', type = JStr ''Fed'',
            description = JStr ''PMI release'', significance = JStr ''High'',
            market_sentiment = JStr ''Mixed'', citations = Some [''https://example.com''] \<rparr>]
           \<le> length events)"
  using sample_parse C2_successful_parse_invariants [OF sample_parse]
  by blast

lemma map_filter_append:
  "List.map_filter f (xs @ ys) = List.map_filter f xs @ List.map_filter f ys"
  by (induction xs) (auto split: option.splits)

lemma validEvents_loop_skip:
  assumes "validateEvent c ev = None"
  shows "validEvents_loop c (before @ ev # after) [] = validEvents_loop c (before @ after) []"
  by (simp add: validEvents_loop_eq map_filter_append assms)

text \<open>
  Claim C5. An element in which one of the six fields is missing, \<^verbatim>\<open>null\<close> or the
  empty string, or whose significance is not exactly one of High, Medium, Low, or
  whose sentiment is not exactly one of Bullish, Bearish, Neutral, Mixed, is not
  emitted, and the loop treats the elements before and after it as if it were not
  there.
\<close>

theorem C5_invalid_element_is_skipped:
  assumes "(\<exists>name\<in>{''date'', ''event'', ''type'', ''description'', ''significance'',
                    ''marketSentiment''}.
              GetV ev name = Some JUndefined \<or> GetV ev name = Some JNull
            \<or> GetV ev name = Some (JStr []))
         \<or> (\<forall>s\<in>set validSignificance. GetV ev ''significance'' \<noteq> Some (JStr s))
         \<or> (\<forall>s\<in>set validSentiment. GetV ev ''marketSentiment'' \<noteq> Some (JStr s))"
  shows "validateEvent c ev = None
       \<and> validEvents_loop c (before @ ev # after) [] = validEvents_loop c (before @ after) []"
proof -
  have none: "validateEvent c ev = None"
  proof (cases "\<exists>props. ev = JObj props")
    case False
    then show ?thesis by (rule validateEvent_not_obj)
  next
    case True
    then obtain props where ev: "ev = JObj props" by blast
    from assms have
      "\<not> ToBoolean (Get props ''date'') \<or> \<not> ToBoolean (Get props ''event'')
       \<or> \<not> ToBoolean (Get props ''type'') \<or> \<not> ToBoolean (Get props ''description'')
       \<or> \<not> ToBoolean (Get props ''significance'') \<or> \<not> ToBoolean (Get props ''marketSentiment'')
       \<or> \<not> Array_includes validSignificance (Get props ''significance'')
       \<or> \<not> Array_includes validSentiment (Get props ''marketSentiment'')"
      unfolding ev by (auto simp: Array_includes_iff)
    then show ?thesis
      unfolding ev validateEvent_JObj by auto
  qed
  then show ?thesis
    using validEvents_loop_skip [of c ev before after] by simp
qed

theorem C5_invalid_element_is_skipped_witness:
  "GetV sample_event_extreme ''significance'' = Some (JStr ''Extreme'')
   \<and> ''Extreme'' \<notin> set validSignificance
   \<and> validateEvent [] sample_event_extreme = None
   \<and> validEvents_loop [] ([sample_event_fomc] @ sample_event_extreme # [sample_event_fomc]) []
       = validEvents_loop [] ([sample_event_fomc] @ [sample_event_fomc]) []
   \<and> length (validEvents_loop [] ([sample_event_fomc] @ [sample_event_fomc]) []) = 2"
proof -
  have h: "\<forall>s\<in>set validSignificance. GetV sample_event_extreme ''significance'' \<noteq> Some (JStr s)"
    by (simp add: sample_event_extreme_def Get_def validSignificance_def)
  have two: "length (validEvents_loop [] ([sample_event_fomc] @ [sample_event_fomc]) []) = 2"
    by (simp add: sample_event_fomc_def validateEvent_JObj Get_def typeMappings_def
          validSignificance_def validSentiment_def validTypes_def Object_prototype_keys_def)
  have g: "GetV sample_event_extreme ''significance'' = Some (JStr ''Extreme'')"
    by (simp add: sample_event_extreme_def Get_def)
  have n: "''Extreme'' \<notin> set validSignificance"
    by (simp add: validSignificance_def)
  show ?thesis
    using g n two
      C5_invalid_element_is_skipped [of sample_event_extreme "[]" "[sample_event_fomc]"
        "[sample_event_fomc]"] h
    by blast
qed

text \<open>
  Claim C6. Once the span has parsed to an array, the function throws the
  no-valid-events error exactly when validation rejects every element; when some
  element survives, the survivors are returned, in order, as a success.
\<close>

theorem C6_no_valid_events_iff_all_rejected:
  assumes "jsonMatch response = Some m" and "JSON_parse m = Inr (JArr events)"
  shows "(parseAIResponse JSON_parse response c
            = Inl ''Failed to parse AI response: No valid events found in AI response''
          \<longleftrightarrow> (\<forall>ev\<in>set events. validateEvent c ev = None))
       \<and> ((\<exists>ev\<in>set events. validateEvent c ev \<noteq> None)
            \<longrightarrow> parseAIResponse JSON_parse response c
                  = Inr (List.map_filter (validateEvent c) events))"
proof -
  have empty_iff: "List.map_filter (validateEvent c) events = []
                   \<longleftrightarrow> (\<forall>ev\<in>set events. validateEvent c ev = None)"
    by (induction events) (auto split: option.splits)
  have val: "parseAIResponse JSON_parse response c =
        (if List.map_filter (validateEvent c) events = []
         then Inl ''Failed to parse AI response: No valid events found in AI response''
         else Inr (List.map_filter (validateEvent c) events))"
    by (simp add: parseAIResponse_def assms validEvents_loop_eq)
  show ?thesis
    unfolding val using empty_iff by auto
qed

theorem C6_no_valid_events_iff_all_rejected_witness:
  "jsonMatch (''Here is the data: '' @ sample_span @ '' Hope this helps.'') = Some sample_span
   \<and> JSON_parse_sample sample_span = Inr (JArr sample_events)
   \<and> (\<exists>ev\<in>set sample_events. validateEvent [] ev \<noteq> None)
   \<and> \<not> (\<forall>ev\<in>set sample_events. validateEvent [] ev = None)
   \<and> parseAIResponse JSON_parse_sample
         (''Here is the data: '' @ sample_span @ '' Hope this helps.'') []
       = Inr (List.map_filter (validateEvent []) sample_events)
   \<and> length (List.map_filter (validateEvent []) sample_events) = 1"
proof -
  have p: "JSON_parse_sample sample_span = Inr (JArr sample_events)"
    by (simp add: JSON_parse_sample_def sample_span_def)
  have ok: "validateEvent [] sample_event_fomc \<noteq> None"
    by (simp add: sample_event_fomc_def validateEvent_JObj Get_def typeMappings_def
          validSignificance_def validSentiment_def validTypes_def Object_prototype_keys_def)
  have bad: "validateEvent [] sample_event_extreme = None"
    by (simp add: sample_event_extreme_def validateEvent_JObj Get_def
          validSignificance_def validSentiment_def Object_prototype_keys_def)
  from ok have ex: "\<exists>ev\<in>set sample_events. validateEvent [] ev \<noteq> None"
    by (simp add: sample_events_def)
  from ok bad have len: "length (List.map_filter (validateEvent []) sample_events) = 1"
    by (auto simp: sample_events_def)
  note inst = C6_no_valid_events_iff_all_rejected
        [where JSON_parse = JSON_parse_sample and c = "[]", OF sample_match p]
  from inst ex have r: "parseAIResponse JSON_parse_sample
         (''Here is the data: '' @ sample_span @ '' Hope this helps.'') []
       = Inr (List.map_filter (validateEvent []) sample_events)"
    by (rule conjunct2 [THEN mp])
  from ex have nall: "\<not> (\<forall>ev\<in>set sample_events. validateEvent [] ev = None)"
    by simp
  from sample_match p ex nall r len show ?thesis
    by simp
qed

section \<open>Properties of the ingestor\<close>

lemma findExistingEvent_key:
  "event a = event b \<Longrightarrow> date a = date b
     \<Longrightarrow> findExistingEvent supabase db a = findExistingEvent supabase db b"
  by (simp add: findExistingEvent_def)

lemma dedup_loop_eq:
  "dedup_loop supabase db evs u n =
     (u @ filter (\<lambda>c. findExistingEvent supabase db c = None) evs,
      n + length (filter (\<lambda>c. findExistingEvent supabase db c \<noteq> None) evs))"
  by (induction evs arbitrary: u n) (auto split: option.splits)

lemma createEvents_eq:
  "createEvents supabase db evs =
     (if filter (\<lambda>c. findExistingEvent supabase db c = None) evs = []
      then (Inr \<lparr> created = [],
                  skipped = length (filter (\<lambda>c. findExistingEvent supabase db c \<noteq> None) evs) \<rparr>, db)
      else (case insert_select supabase db (filter (\<lambda>c. findExistingEvent supabase db c = None) evs) of
              (Inl message, db') \<Rightarrow> (Inl (''Failed to create market events: '' @ message), db')
            | (Inr data, db') \<Rightarrow>
                (Inr \<lparr> created = data,
                       skipped = length (filter (\<lambda>c. findExistingEvent supabase db c \<noteq> None) evs) \<rparr>,
                 db')))"
  by (simp add: createEvents_def dedup_loop_eq split: prod.splits sum.splits)

subsection \<open>The example table\<close>

lemmas example_defs =
  candidate_pmi_def candidate_pmi_revised_def candidate_cpi_def candidate_fomc_def
  stored_pmi_def stored_pmi_revised_def stored_cpi_def added_pmi_def added_pmi_revised_def
  added_fomc_def table_row_def CreateMarketEvent.extend_def

lemma table_insert_empty:
  "table_insert first_run [] [candidate_pmi, candidate_pmi_revised]
     = (Inr [stored_pmi, stored_pmi_revised], [stored_pmi, stored_pmi_revised])"
  by (simp add: table_insert_def enumerate_eq_zip Let_def stored_pmi_def stored_pmi_revised_def)

lemma table_insert_again:
  "table_insert second_run [stored_pmi, stored_pmi_revised] [candidate_pmi, candidate_pmi_revised]
     = (Inr [added_pmi, added_pmi_revised],
        [stored_pmi, stored_pmi_revised, added_pmi, added_pmi_revised])"
  by (simp add: table_insert_def enumerate_eq_zip Let_def added_pmi_def added_pmi_revised_def
        eval_nat_numeral)

lemma table_insert_flaky:
  "table_insert second_run [stored_pmi, stored_cpi] [candidate_pmi, candidate_fomc]
     = (Inr [added_pmi, added_fomc], [stored_pmi, stored_cpi, added_pmi, added_fomc])"
  by (simp add: table_insert_def enumerate_eq_zip Let_def added_pmi_def added_fomc_def
        eval_nat_numeral)

lemma table_single_empty: "table_single [] e d = Failed ''PGRST116'' ''JSON object requested, multiple (or no) rows returned''"
  by (simp add: table_single_def)

lemma table_single_twice:
  "table_single [stored_pmi, stored_pmi_revised] (JStr ''ISM PMI'') (JStr ''December 1 2025'')
     = Failed ''PGRST116'' ''JSON object requested, multiple (or no) rows returned''"
  by (simp add: table_single_def example_defs)

lemma table_single_pmi:
  "table_single [stored_pmi, stored_cpi] (JStr ''ISM PMI'') (JStr ''December 1 2025'')
     = Row stored_pmi"
  by (simp add: table_single_def example_defs)

lemma table_single_cpi:
  "table_single [stored_pmi, stored_cpi] (JStr ''US CPI'') (JStr ''December 3 2025'')
     = Row stored_cpi"
  by (simp add: table_single_def example_defs)

lemma table_single_fomc:
  "table_single [stored_pmi, stored_cpi] (JStr ''FOMC minutes'') (JStr ''December 4 2025'')
     = Failed ''PGRST116'' ''JSON object requested, multiple (or no) rows returned''"
  by (simp add: table_single_def example_defs)

lemma candidate_keys:
  "event candidate_pmi = JStr ''ISM PMI''" "date candidate_pmi = JStr ''December 1 2025''"
  "event candidate_pmi_revised = JStr ''ISM PMI''"
  "date candidate_pmi_revised = JStr ''December 1 2025''"
  "event candidate_cpi = JStr ''US CPI''" "date candidate_cpi = JStr ''December 3 2025''"
  "event candidate_fomc = JStr ''FOMC minutes''" "date candidate_fomc = JStr ''December 4 2025''"
  by (simp_all add: candidate_pmi_def candidate_pmi_revised_def candidate_cpi_def
        candidate_fomc_def)

lemma findExistingEvent_None_iff:
  "findExistingEvent supabase db c = None
     \<longleftrightarrow> (\<nexists>r. select_single supabase db (event c) (date c) = Row r)"
  by (cases "select_single supabase db (event c) (date c)") (simp_all add: findExistingEvent_def)

text \<open>
  Claim C1, as the code has it. The existence check reads the store only, never the
  candidates already staged. So when a batch holds two candidates with the same event
  and date and the check finds no stored record for that pair, both are staged, in
  input order and each with its own fields, and handed to the one batch insert;
  neither adds to the skipped count, which counts exactly the candidates the check
  found in the store.
\<close>

theorem C1_in_batch_duplicates_are_both_staged:
  assumes "event a = event b" and "date a = date b"
    and "findExistingEvent supabase db a = None"
  shows "createEvents supabase db (xs @ a # ys @ b # zs) =
     (case insert_select supabase db
             (filter (\<lambda>c. findExistingEvent supabase db c = None) xs @ a
              # filter (\<lambda>c. findExistingEvent supabase db c = None) ys @ b
              # filter (\<lambda>c. findExistingEvent supabase db c = None) zs) of
        (Inl message, db') \<Rightarrow> (Inl (''Failed to create market events: '' @ message), db')
      | (Inr data, db') \<Rightarrow>
          (Inr \<lparr> created = data,
                 skipped = length (filter (\<lambda>c. findExistingEvent supabase db c \<noteq> None) (xs @ ys @ zs)) \<rparr>,
           db'))"
proof -
  from assms have b: "findExistingEvent supabase db b = None"
    using findExistingEvent_key [of a b supabase db] by simp
  show ?thesis
    by (simp add: createEvents_eq assms(3) b split: prod.splits sum.splits)
qed

text \<open>
  On the empty table the two candidates, equal in event and date and different in
  description, give two rows and a skipped count of zero.
\<close>

theorem C1_counterexample:
  "event candidate_pmi = event candidate_pmi_revised
   \<and> date candidate_pmi = date candidate_pmi_revised
   \<and> description candidate_pmi \<noteq> description candidate_pmi_revised
   \<and> createEvents (table_client first_run) [] [candidate_pmi, candidate_pmi_revised]
       = (Inr \<lparr> created = [stored_pmi, stored_pmi_revised], skipped = 0 \<rparr>,
          [stored_pmi, stored_pmi_revised])"
proof -
  have "description candidate_pmi \<noteq> description candidate_pmi_revised"
    by (simp add: candidate_pmi_def candidate_pmi_revised_def)
  moreover have "createEvents (table_client first_run) [] [candidate_pmi, candidate_pmi_revised]
       = (Inr \<lparr> created = [stored_pmi, stored_pmi_revised], skipped = 0 \<rparr>,
          [stored_pmi, stored_pmi_revised])"
    by (simp add: createEvents_eq findExistingEvent_def table_client_def table_single_empty
          table_insert_empty)
  ultimately show ?thesis
    by (simp add: candidate_keys)
qed

theorem C1_in_batch_duplicates_are_both_staged_witness:
  "event candidate_pmi = event candidate_pmi_revised
   \<and> date candidate_pmi = date candidate_pmi_revised
   \<and> findExistingEvent (table_client first_run) [] candidate_pmi = None
   \<and> createEvents (table_client first_run) []
         ([] @ candidate_pmi # [] @ candidate_pmi_revised # [])
       = (Inr \<lparr> created = [stored_pmi, stored_pmi_revised], skipped = 0 \<rparr>,
          [stored_pmi, stored_pmi_revised])"
proof -
  have e: "event candidate_pmi = event candidate_pmi_revised"
    and d: "date candidate_pmi = date candidate_pmi_revised"
    by (simp_all add: candidate_keys)
  have n: "findExistingEvent (table_client first_run) [] candidate_pmi = None"
    by (simp add: findExistingEvent_def table_client_def table_single_empty)
  have i: "insert_select (table_client first_run) [] [candidate_pmi, candidate_pmi_revised]
           = (Inr [stored_pmi, stored_pmi_revised], [stored_pmi, stored_pmi_revised])"
    by (simp add: table_client_def table_insert_empty)
  show ?thesis
    using e d n i
      C1_in_batch_duplicates_are_both_staged [OF e d n, of "[]" "[]" "[]"]
    by simp
qed

text \<open>
  Claim C7. When the existence check for a candidate comes back with an error object
  or a rejected promise, the candidate counts as not found and is part of the list
  given to the batch insert; the candidates before and after it are classified as
  usual, and the skipped count is theirs.
\<close>

theorem C7_failed_check_fails_open:
  assumes "select_single supabase db (event c) (date c) = Failed code message
         \<or> select_single supabase db (event c) (date c) = Rejected"
  shows "findExistingEvent supabase db c = None
       \<and> createEvents supabase db (before @ c # after) =
           (case insert_select supabase db
                   (filter (\<lambda>x. findExistingEvent supabase db x = None) before @ c
                    # filter (\<lambda>x. findExistingEvent supabase db x = None) after) of
              (Inl message, db') \<Rightarrow> (Inl (''Failed to create market events: '' @ message), db')
            | (Inr data, db') \<Rightarrow>
                (Inr \<lparr> created = data,
                       skipped = length (filter (\<lambda>x. findExistingEvent supabase db x \<noteq> None)
                                           (before @ after)) \<rparr>,
                 db'))"
proof -
  from assms have n: "findExistingEvent supabase db c = None"
    by (auto simp: findExistingEvent_def)
  show ?thesis
    by (simp add: createEvents_eq n split: prod.splits sum.splits)
qed

theorem C7_failed_check_fails_open_witness:
  "select_single (flaky_client second_run (JStr ''ISM PMI'')) [stored_pmi, stored_cpi]
       (event candidate_pmi) (date candidate_pmi)
     = Failed [] ''TypeError: fetch failed''
   \<and> createEvents (flaky_client second_run (JStr ''ISM PMI'')) [stored_pmi, stored_cpi]
         ([candidate_cpi] @ candidate_pmi # [candidate_fomc])
       = (Inr \<lparr> created = [added_pmi, added_fomc], skipped = 1 \<rparr>,
          [stored_pmi, stored_cpi, added_pmi, added_fomc])"
proof -
  let ?cl = "flaky_client second_run (JStr ''ISM PMI'')"
  let ?db = "[stored_pmi, stored_cpi]"
  have f: "select_single ?cl ?db (event candidate_pmi) (date candidate_pmi)
             = Failed [] ''TypeError: fetch failed''"
    by (simp add: flaky_client_def candidate_keys)
  have cpi: "findExistingEvent ?cl ?db candidate_cpi = Some stored_cpi"
    by (simp add: findExistingEvent_def flaky_client_def candidate_keys table_single_cpi)
  have fomc: "findExistingEvent ?cl ?db candidate_fomc = None"
    by (simp add: findExistingEvent_def flaky_client_def candidate_keys table_single_fomc)
  have i: "insert_select ?cl ?db [candidate_pmi, candidate_fomc]
           = (Inr [added_pmi, added_fomc], [stored_pmi, stored_cpi, added_pmi, added_fomc])"
    by (simp add: flaky_client_def table_insert_flaky)
  have "createEvents ?cl ?db ([candidate_cpi] @ candidate_pmi # [candidate_fomc]) =
          (Inr \<lparr> created = [added_pmi, added_fomc], skipped = 1 \<rparr>,
           [stored_pmi, stored_cpi, added_pmi, added_fomc])"
    using C7_failed_check_fails_open [of ?cl ?db candidate_pmi "[]" "''TypeError: fetch failed''"
        "[candidate_cpi]" "[candidate_fomc]"] f
    by (simp add: cpi fomc i)
  with f show ?thesis by simp
qed

text \<open>
  Claim C8, as the code has it. A second run creates nothing, skips all \<open>n\<close>
  candidates and leaves the store as it was when the existence check of every
  candidate answers with a row, which on the table means exactly one stored row with
  that event and date.
\<close>

theorem C8_repeat_is_idempotent_when_all_found:
  assumes "\<forall>c\<in>set eventsData. \<exists>r. select_single supabase db (event c) (date c) = Row r"
  shows "createEvents supabase db eventsData
           = (Inr \<lparr> created = [], skipped = length eventsData \<rparr>, db)"
proof -
  from assms have all: "\<forall>c\<in>set eventsData. findExistingEvent supabase db c \<noteq> None"
    by (auto simp: findExistingEvent_def)
  then have "filter (\<lambda>c. findExistingEvent supabase db c = None) eventsData = []"
    by (simp add: filter_empty_conv)
  moreover from all have
    "filter (\<lambda>c. findExistingEvent supabase db c \<noteq> None) eventsData = eventsData"
    by (simp add: filter_id_conv)
  ultimately show ?thesis
    by (simp add: createEvents_eq)
qed

lemma table_insert_readd:
  "table_insert second_run [stored_pmi] [candidate_pmi] = (Inr [readded_pmi], [stored_pmi, readded_pmi])"
  by (simp add: table_insert_def enumerate_eq_zip Let_def readded_pmi_def)

text \<open>
  Two second runs that create records. In the first, the table holds the candidate's
  record and the existence check fails in transport. In the other, a batch is run
  twice from the empty table: the first run stores both candidates, and in the second
  run each check matches two rows and answers \<^verbatim>\<open>PGRST116\<close>.
\<close>

theorem C8_counterexample:
  "table_single [stored_pmi] (event candidate_pmi) (date candidate_pmi) = Row stored_pmi
   \<and> createEvents (flaky_client second_run (JStr ''ISM PMI'')) [stored_pmi] [candidate_pmi]
       = (Inr \<lparr> created = [readded_pmi], skipped = 0 \<rparr>, [stored_pmi, readded_pmi])
   \<and> createEvents (table_client first_run) [] [candidate_pmi, candidate_pmi_revised]
       = (Inr \<lparr> created = [stored_pmi, stored_pmi_revised], skipped = 0 \<rparr>,
          [stored_pmi, stored_pmi_revised])
   \<and> createEvents (table_client second_run) [stored_pmi, stored_pmi_revised]
         [candidate_pmi, candidate_pmi_revised]
       = (Inr \<lparr> created = [added_pmi, added_pmi_revised], skipped = 0 \<rparr>,
          [stored_pmi, stored_pmi_revised, added_pmi, added_pmi_revised])"
proof -
  have a: "table_single [stored_pmi] (event candidate_pmi) (date candidate_pmi) = Row stored_pmi"
    by (simp add: table_single_def example_defs)
  have b: "createEvents (flaky_client second_run (JStr ''ISM PMI'')) [stored_pmi] [candidate_pmi]
       = (Inr \<lparr> created = [readded_pmi], skipped = 0 \<rparr>, [stored_pmi, readded_pmi])"
    by (simp add: createEvents_eq findExistingEvent_def flaky_client_def candidate_keys
          table_insert_readd)
  have c: "createEvents (table_client first_run) [] [candidate_pmi, candidate_pmi_revised]
       = (Inr \<lparr> created = [stored_pmi, stored_pmi_revised], skipped = 0 \<rparr>,
          [stored_pmi, stored_pmi_revised])"
    by (simp add: createEvents_eq findExistingEvent_def table_client_def table_single_empty
          table_insert_empty)
  have d: "createEvents (table_client second_run) [stored_pmi, stored_pmi_revised]
         [candidate_pmi, candidate_pmi_revised]
       = (Inr \<lparr> created = [added_pmi, added_pmi_revised], skipped = 0 \<rparr>,
          [stored_pmi, stored_pmi_revised, added_pmi, added_pmi_revised])"
    by (simp add: createEvents_eq findExistingEvent_def table_client_def candidate_keys
          table_single_twice table_insert_again)
  from a b c d show ?thesis by simp
qed

theorem C8_repeat_is_idempotent_when_all_found_witness:
  "select_single (table_client second_run) [stored_pmi, stored_cpi]
       (event candidate_pmi) (date candidate_pmi) = Row stored_pmi
   \<and> select_single (table_client second_run) [stored_pmi, stored_cpi]
       (event candidate_cpi) (date candidate_cpi) = Row stored_cpi
   \<and> createEvents (table_client second_run) [stored_pmi, stored_cpi]
         [candidate_pmi, candidate_cpi]
       = (Inr \<lparr> created = [], skipped = 2 \<rparr>, [stored_pmi, stored_cpi])"
proof -
  let ?cl = "table_client second_run"
  let ?db = "[stored_pmi, stored_cpi]"
  have a: "select_single ?cl ?db (event candidate_pmi) (date candidate_pmi) = Row stored_pmi"
    by (simp add: table_client_def candidate_keys table_single_pmi)
  have b: "select_single ?cl ?db (event candidate_cpi) (date candidate_cpi) = Row stored_cpi"
    by (simp add: table_client_def candidate_keys table_single_cpi)
  from a b have h: "\<forall>c\<in>set [candidate_pmi, candidate_cpi].
                      \<exists>r. select_single ?cl ?db (event c) (date c) = Row r"
    by simp
  show ?thesis
    using a b C8_repeat_is_idempotent_when_all_found [OF h]
    by simp
qed

section \<open>Properties of the week start and the prompt\<close>

subsection \<open>Day numbers\<close>

lemma DaysInMonth_bounds: "28 \<le> DaysInMonth y m" "DaysInMonth y m \<le> 31"
  by (simp_all add: DaysInMonth_def)

lemma div_step:
  fixes x k :: int
  assumes "0 < k"
  shows "(x + 1) div k = x div k + (if (x + 1) mod k = 0 then 1 else 0)"
proof -
  define q where "q = x div k"
  define r where "r = x mod k"
  have x: "k * q + r = x" unfolding q_def r_def by simp
  have r: "0 \<le> r" "r < k" unfolding r_def using assms by simp_all
  have k: "k \<noteq> 0" using assms by simp
  have split: "k * q + (r + 1) = x + 1" using x by simp
  have d: "(x + 1) div k = q + (r + 1) div k"
    using div_mult_self4 [OF k, of q "r + 1"] unfolding split .
  have m: "(x + 1) mod k = (r + 1) mod k"
    using mod_mult_self4 [of k q "r + 1"] unfolding split .
  show ?thesis
  proof (cases "r + 1 = k")
    case True
    then have "(r + 1) div k = 1" "(r + 1) mod k = 0" using k by simp_all
    with d m show ?thesis by (simp add: q_def)
  next
    case False
    with r have lt: "r + 1 < k" by simp
    from r have nn: "0 \<le> r + 1" by simp
    have "(r + 1) div k = 0" using nn lt by (rule div_pos_pos_trivial)
    moreover have "(r + 1) mod k = r + 1" using nn lt by (rule mod_pos_pos_trivial)
    ultimately show ?thesis using d m r by (simp add: q_def)
  qed
qed

lemma mod_4_shift: "((y::int) - 1968) mod 4 = y mod 4"
  using mod_mult_self2 [of y 4 "- 492"] by simp
lemma mod_100_shift: "((y::int) - 1900) mod 100 = y mod 100"
  using mod_mult_self2 [of y 100 "- 19"] by simp
lemma mod_400_shift: "((y::int) - 1600) mod 400 = y mod 400"
  using mod_mult_self2 [of y 400 "- 4"] by simp

lemma div_4_step: "((y::int) + 1 - 1969) div 4 = (y - 1969) div 4 + (if y mod 4 = 0 then 1 else 0)"
  using div_step [of 4 "y - 1969"] mod_4_shift [of y] by (simp add: algebra_simps)

lemma div_100_step: "((y::int) + 1 - 1901) div 100 = (y - 1901) div 100 + (if y mod 100 = 0 then 1 else 0)"
  using div_step [of 100 "y - 1901"] mod_100_shift [of y] by (simp add: algebra_simps)

lemma div_400_step: "((y::int) + 1 - 1601) div 400 = (y - 1601) div 400 + (if y mod 400 = 0 then 1 else 0)"
  using div_step [of 400 "y - 1601"] mod_400_shift [of y] by (simp add: algebra_simps)

lemma leap_year_count:
  "(if leap_year y then 366 else 365) =
     365 + (if y mod 4 = 0 then 1 else 0) - (if y mod 100 = 0 then 1 else 0)
     + (if y mod 400 = 0 then 1 else (0::int))"
proof -
  define P4 where "P4 \<longleftrightarrow> y mod 4 = 0"
  define P100 where "P100 \<longleftrightarrow> y mod 100 = 0"
  define P400 where "P400 \<longleftrightarrow> y mod 400 = 0"
  have "(100::int) dvd 400" "(4::int) dvd 100" by simp_all
  then have h: "P400 \<Longrightarrow> P100" "P100 \<Longrightarrow> P4"
    unfolding P4_def P100_def P400_def mod_eq_0_iff_dvd by (blast intro: dvd_trans)+
  have l: "leap_year y \<longleftrightarrow> P4 \<and> (\<not> P100 \<or> P400)"
    unfolding leap_year_def P4_def P100_def P400_def ..
  show ?thesis
    unfolding l P4_def [symmetric] P100_def [symmetric] P400_def [symmetric]
    using h by (cases P4; cases P100; cases P400) simp_all
qed

lemma DayFromYear_next:
  "DayFromYear (y + 1) = DayFromYear y + (if leap_year y then 366 else 365)"
proof -
  define A where "A = (y - 1969) div 4"
  define B where "B = (y - 1901) div 100"
  define C where "C = (y - 1601) div 400"
  define i4 where "i4 = (if y mod 4 = 0 then 1 else (0::int))"
  define i100 where "i100 = (if y mod 100 = 0 then 1 else (0::int))"
  define i400 where "i400 = (if y mod 400 = 0 then 1 else (0::int))"
  have nxt: "DayFromYear (y + 1) = 365 * (y + 1 - 1970) + (A + i4) - (B + i100) + (C + i400)"
    unfolding DayFromYear_def div_4_step div_100_step div_400_step A_def B_def C_def i4_def i100_def i400_def ..
  have cur: "DayFromYear y = 365 * (y - 1970) + A - B + C"
    unfolding DayFromYear_def A_def B_def C_def ..
  have leap: "(if leap_year y then 366 else 365) = 365 + i4 - i100 + i400"
    unfolding i4_def i100_def i400_def by (rule leap_year_count)
  show ?thesis
    unfolding nxt cur leap by simp
qed

lemma days_before_month_12:
  "days_before_month y 12 = (if leap_year y then 366 else 365)"
  by (simp add: eval_nat_numeral DaysInMonth_def)

lemma Day_month_start: "Day d = month_start d + int (dayOfMonth d) - 1"
  by (simp add: Day_def month_start_def)

lemma month_start_next:
  assumes "monthIndex d < 12"
  shows "month_start (next_month d) = month_start d + DaysInMonth (fullYear d) (monthIndex d)"
proof (cases "monthIndex d = 11")
  case True
  have "days_before_month (fullYear d) 12
          = days_before_month (fullYear d) 11 + DaysInMonth (fullYear d) 11"
    by (simp add: eval_nat_numeral)
  then show ?thesis
    using True DayFromYear_next [of "fullYear d"] days_before_month_12 [of "fullYear d"]
    by (simp add: month_start_def next_month_def)
next
  case False
  with assms have "monthIndex d < 11" by simp
  then show ?thesis
    by (simp add: month_start_def next_month_def)
qed

lemma month_start_previous:
  assumes "monthIndex d < 12"
  shows "month_start (previous_month d) =
           month_start d
           - DaysInMonth (fullYear (previous_month d)) (monthIndex (previous_month d))"
proof (cases "monthIndex d = 0")
  case True
  have "days_before_month (fullYear d - 1) 12
          = days_before_month (fullYear d - 1) 11 + DaysInMonth (fullYear d - 1) 11"
    by (simp add: eval_nat_numeral)
  then show ?thesis
    using True DayFromYear_next [of "fullYear d - 1"] days_before_month_12 [of "fullYear d - 1"]
    by (simp add: month_start_def previous_month_def)
next
  case False
  then obtain k where k: "monthIndex d = Suc k" by (cases "monthIndex d") auto
  then show ?thesis
    by (simp add: month_start_def previous_month_def)
qed

lemma monthIndex_next: "monthIndex d < 12 \<Longrightarrow> monthIndex (next_month d) < 12"
  by (simp add: next_month_def)

lemma monthIndex_previous: "monthIndex d < 12 \<Longrightarrow> monthIndex (previous_month d) < 12"
  by (auto simp: previous_month_def)

lemma setDate_Day:
  "monthIndex d < 12 \<Longrightarrow>
     valid_date (setDate d n) \<and> Day (setDate d n) = month_start d + n - 1"
proof (induction d n rule: setDate.induct)
  case (1 d n)
  show ?case
  proof (cases "n < 1")
    case True
    let ?p = "previous_month d"
    have eq: "setDate d n = setDate ?p (n + DaysInMonth (fullYear ?p) (monthIndex ?p))"
      using True by (subst setDate.simps) simp
    from "1.IH"(1) [OF True monthIndex_previous [OF "1.prems"]]
    show ?thesis
      unfolding eq using month_start_previous [OF "1.prems"] by simp
  next
    case False
    show ?thesis
    proof (cases "n > DaysInMonth (fullYear d) (monthIndex d)")
      case True
      have eq: "setDate d n =
                  setDate (next_month d) (n - DaysInMonth (fullYear d) (monthIndex d))"
        using False True by (subst setDate.simps) simp
      from "1.IH"(2) [OF False True monthIndex_next [OF "1.prems"]]
      show ?thesis
        unfolding eq using month_start_next [OF "1.prems"] by simp
    next
      case inside: False
      have eq: "setDate d n = d\<lparr> dayOfMonth := nat n \<rparr>"
        using False inside by (subst setDate.simps) simp
      show ?thesis
        unfolding eq using False inside "1.prems"
        by (simp add: valid_date_def Day_def month_start_def)
    qed
  qed
qed

lemma getDay_bounds: "0 \<le> getDay d" "getDay d < 7"
  by (simp_all add: getDay_def)

lemma getCurrentWeekStart_Day:
  assumes "valid_date today"
  shows "valid_date (getCurrentWeekStart today)"
    and "Day (getCurrentWeekStart today) = Day today - getDay today"
proof -
  from assms have m: "monthIndex today < 12" by (simp add: valid_date_def)
  from setDate_Day [OF m, of "getDate today - getDay today"]
  show "valid_date (getCurrentWeekStart today)"
    and "Day (getCurrentWeekStart today) = Day today - getDay today"
    by (simp_all add: getCurrentWeekStart_def getDate_def Day_month_start)
qed

text \<open>
  Claim C10. Without an explicit week start, the target week starts on the latest
  Sunday that is not after today: the date chosen is a date of the calendar, its
  day of the week is 0, and it lies \<^verbatim>\<open>getDay()\<close> days, hence at most six, before
  today.
\<close>

theorem C10_default_week_start_is_latest_sunday:
  assumes "valid_date today"
  shows "valid_date (targetWeek None today)
       \<and> getDay (targetWeek None today) = 0
       \<and> Day (targetWeek None today) = Day today - getDay today
       \<and> Day today - 6 \<le> Day (targetWeek None today)
       \<and> Day (targetWeek None today) \<le> Day today"
proof -
  have t: "targetWeek None today = getCurrentWeekStart today"
    by (simp add: targetWeek_def)
  note v = getCurrentWeekStart_Day [OF assms]
  have "getDay (getCurrentWeekStart today) = (Day today + 4 - (Day today + 4) mod 7) mod 7"
    unfolding getDay_def [of "getCurrentWeekStart today"] v(2) getDay_def [of today]
    by (simp add: algebra_simps)
  also have "\<dots> = 0"
    by (simp add: minus_mod_eq_mult_div)
  finally have sunday: "getDay (getCurrentWeekStart today) = 0" .
  from getDay_bounds [of today] have "0 \<le> getDay today" "getDay today \<le> 6" by simp_all
  with v sunday show ?thesis
    unfolding t by simp
qed

theorem C10_default_week_start_is_latest_sunday_witness:
  "valid_date \<lparr>fullYear = 2025, monthIndex = 11, dayOfMonth = 3\<rparr>
   \<and> getDay \<lparr>fullYear = 2025, monthIndex = 11, dayOfMonth = 3\<rparr> = 3
   \<and> targetWeek None \<lparr>fullYear = 2025, monthIndex = 11, dayOfMonth = 3\<rparr>
       = \<lparr>fullYear = 2025, monthIndex = 10, dayOfMonth = 30\<rparr>
   \<and> getDay (targetWeek None \<lparr>fullYear = 2025, monthIndex = 11, dayOfMonth = 3\<rparr>) = 0
   \<and> Day (targetWeek None \<lparr>fullYear = 2025, monthIndex = 11, dayOfMonth = 3\<rparr>)
       = Day \<lparr>fullYear = 2025, monthIndex = 11, dayOfMonth = 3\<rparr> - 3"
proof -
  let ?today = "\<lparr>fullYear = 2025, monthIndex = 11, dayOfMonth = 3\<rparr>"
  have v: "valid_date ?today"
    by (simp add: valid_date_def DaysInMonth_def)
  have db: "days_before_month 2025 11 = 334"
    by (simp add: eval_nat_numeral DaysInMonth_def leap_year_def)
  have g: "getDay ?today = 3"
    by (simp add: getDay_def Day_def DayFromYear_def db)
  have w: "targetWeek None ?today = \<lparr>fullYear = 2025, monthIndex = 10, dayOfMonth = 30\<rparr>"
    by (simp add: targetWeek_def getCurrentWeekStart_def getDate_def g setDate.simps
          previous_month_def DaysInMonth_def)
  show ?thesis
    using v g w C10_default_week_start_is_latest_sunday [OF v]
    by simp
qed

subsection \<open>A day number belongs to one calendar date\<close>

lemma days_before_month_mono:
  "m \<le> m' \<Longrightarrow> days_before_month y m \<le> days_before_month y m'"
proof (induction m')
  case 0
  then show ?case by simp
next
  case (Suc m')
  show ?case
  proof (cases "m = Suc m'")
    case True
    then show ?thesis by simp
  next
    case False
    with Suc.prems have "m \<le> m'" by simp
    from Suc.IH [OF this] DaysInMonth_bounds(1) [of y m'] show ?thesis by simp
  qed
qed

lemma valid_date_offset:
  assumes "valid_date d"
  shows "0 \<le> days_before_month (fullYear d) (monthIndex d) + int (dayOfMonth d) - 1"
    and "days_before_month (fullYear d) (monthIndex d) + int (dayOfMonth d)
           \<le> days_before_month (fullYear d) 12"
proof -
  from assms have m: "Suc (monthIndex d) \<le> 12" and d1: "1 \<le> dayOfMonth d"
    and d2: "int (dayOfMonth d) \<le> DaysInMonth (fullYear d) (monthIndex d)"
    by (simp_all add: valid_date_def)
  have "0 \<le> days_before_month (fullYear d) (monthIndex d)"
    using days_before_month_mono [of 0 "monthIndex d" "fullYear d"] by simp
  with d1 show "0 \<le> days_before_month (fullYear d) (monthIndex d) + int (dayOfMonth d) - 1"
    by simp
  from days_before_month_mono [OF m, of "fullYear d"] d2
  show "days_before_month (fullYear d) (monthIndex d) + int (dayOfMonth d)
           \<le> days_before_month (fullYear d) 12"
    by simp
qed

lemma DayFromYear_next_12:
  "DayFromYear (y + 1) = DayFromYear y + days_before_month y 12"
  by (simp only: DayFromYear_next days_before_month_12)

lemma DayFromYear_le_add: "DayFromYear y \<le> DayFromYear (y + int k)"
proof (induction k)
  case 0
  then show ?case by simp
next
  case (Suc k)
  have "DayFromYear (y + int (Suc k)) = DayFromYear (y + int k + 1)"
    by (simp add: algebra_simps)
  also have "\<dots> = DayFromYear (y + int k) + (if leap_year (y + int k) then 366 else 365)"
    by (rule DayFromYear_next)
  finally show ?case using Suc.IH by simp
qed

lemma DayFromYear_mono:
  assumes "y < y'"
  shows "DayFromYear (y + 1) \<le> DayFromYear y'"
proof -
  from assms have "y' = y + 1 + int (nat (y' - y - 1))" by simp
  then show ?thesis
    using DayFromYear_le_add [of "y + 1" "nat (y' - y - 1)"] by simp
qed

lemma Day_in_year:
  assumes "valid_date d"
  shows "DayFromYear (fullYear d) \<le> Day d" and "Day d < DayFromYear (fullYear d + 1)"
  using valid_date_offset [OF assms] DayFromYear_next_12 [of "fullYear d"]
  by (simp_all add: Day_def)

lemma Day_same_year:
  assumes "valid_date d" and "valid_date d'" and "Day d = Day d'"
  shows "fullYear d = fullYear d'"
proof (rule ccontr)
  assume ne: "fullYear d \<noteq> fullYear d'"
  show False
  proof (cases "fullYear d < fullYear d'")
    case True
    from DayFromYear_mono [OF True] Day_in_year [OF assms(1)] Day_in_year [OF assms(2)] assms(3)
    show False by simp
  next
    case False
    with ne have lt: "fullYear d' < fullYear d" by simp
    from DayFromYear_mono [OF lt] Day_in_year [OF assms(1)] Day_in_year [OF assms(2)] assms(3)
    show False by simp
  qed
qed

lemma month_offset_less:
  assumes "valid_date d" and "valid_date d'" and "monthIndex d < monthIndex d'"
    and "y = fullYear d"
  shows "days_before_month y (monthIndex d) + int (dayOfMonth d)
           < days_before_month y (monthIndex d') + int (dayOfMonth d')"
proof -
  from assms(1) have d2: "int (dayOfMonth d) \<le> DaysInMonth y (monthIndex d)"
    by (simp add: valid_date_def assms(4))
  from assms(2) have d1: "1 \<le> dayOfMonth d'" by (simp add: valid_date_def)
  from assms(3) have "Suc (monthIndex d) \<le> monthIndex d'" by simp
  from days_before_month_mono [OF this, of y] d2 d1 show ?thesis by simp
qed

lemma Day_inj:
  assumes "valid_date d" and "valid_date d'" and "Day d = Day d'"
  shows "d = d'"
proof -
  have y: "fullYear d = fullYear d'" using assms by (rule Day_same_year)
  with assms(3) have off:
    "days_before_month (fullYear d) (monthIndex d) + int (dayOfMonth d)
       = days_before_month (fullYear d) (monthIndex d') + int (dayOfMonth d')"
    by (simp add: Day_def)
  have m: "monthIndex d = monthIndex d'"
  proof (rule ccontr)
    assume ne: "monthIndex d \<noteq> monthIndex d'"
    show False
    proof (cases "monthIndex d < monthIndex d'")
      case True
      from month_offset_less [OF assms(1,2) True refl] off show False by simp
    next
      case False
      with ne have lt: "monthIndex d' < monthIndex d" by simp
      from month_offset_less [OF assms(2,1) lt y] off show False by simp
    qed
  qed
  with off have "dayOfMonth d = dayOfMonth d'" by simp
  with y m show ?thesis by simp
qed

lemma civil_Day:
  shows "valid_date (civil n)" and "Day (civil n) = n"
proof -
  have "month_start \<lparr> fullYear = 1970, monthIndex = 0, dayOfMonth = 1 \<rparr> = 0"
    by (simp add: month_start_def DayFromYear_def)
  with setDate_Day [of "\<lparr> fullYear = 1970, monthIndex = 0, dayOfMonth = 1 \<rparr>" "n + 1"]
  show "valid_date (civil n)" and "Day (civil n) = n"
    by (simp_all add: civil_def)
qed

lemma civil_of_Day:
  assumes "valid_date d"
  shows "civil (Day d) = d"
  using Day_inj [OF civil_Day(1) assms civil_Day(2)] .

subsection \<open>Decimal digits\<close>

lemma digit_char:
  assumes "k < 10"
  shows "of_char (''0123456789'' ! k) = 48 + k"
    and "''0123456789'' ! k \<in> set ''0123456789''"
    and "0 < k \<Longrightarrow> ''0123456789'' ! k \<noteq> CHR ''0''"
proof -
  from assms consider "k = 0" | "k = 1" | "k = 2" | "k = 3" | "k = 4" | "k = 5" | "k = 6"
    | "k = 7" | "k = 8" | "k = 9"
    by atomize_elim arith
  then show "of_char (''0123456789'' ! k) = 48 + k"
    by cases simp_all
  from assms show "''0123456789'' ! k \<in> set ''0123456789''"
    by (intro nth_mem) simp
  from assms consider "k = 0" | "k = 1" | "k = 2" | "k = 3" | "k = 4" | "k = 5" | "k = 6"
    | "k = 7" | "k = 8" | "k = 9"
    by atomize_elim arith
  then show "0 < k \<Longrightarrow> ''0123456789'' ! k \<noteq> CHR ''0''"
    by cases simp_all
qed

lemma decimal_value_snoc:
  "decimal_value (s @ [c]) = 10 * decimal_value s + (of_char c - 48)"
  by (simp add: decimal_value_def)

lemma decimal_value_decimal: "decimal_value (decimal n) = n"
proof (induction n rule: decimal.induct)
  case (1 n)
  show ?case
  proof (cases "n < 10")
    case True
    then have "decimal n = [''0123456789'' ! n]" by (subst decimal.simps) simp
    then show ?thesis
      using digit_char(1) [OF True] by (simp add: decimal_value_def)
  next
    case False
    then have d: "decimal n = decimal (n div 10) @ [''0123456789'' ! (n mod 10)]"
      by (subst decimal.simps) simp
    have "n mod 10 < 10" by simp
    from digit_char(1) [OF this] "1.IH" [OF False] show ?thesis
      unfolding d decimal_value_snoc by simp
  qed
qed

lemma decimal_digits: "decimal n \<noteq> [] \<and> set (decimal n) \<subseteq> set ''0123456789''"
proof (induction n rule: decimal.induct)
  case (1 n)
  show ?case
  proof (cases "n < 10")
    case True
    then have "decimal n = [''0123456789'' ! n]" by (subst decimal.simps) simp
    then show ?thesis
      using digit_char(2) [OF True] by simp
  next
    case False
    then have d: "decimal n = decimal (n div 10) @ [''0123456789'' ! (n mod 10)]"
      by (subst decimal.simps) simp
    have "n mod 10 < 10" by simp
    from digit_char(2) [OF this] "1.IH" [OF False] show ?thesis
      unfolding d by simp
  qed
qed

lemma decimal_no_leading_zero: "0 < n \<Longrightarrow> hd (decimal n) \<noteq> CHR ''0''"
proof (induction n rule: decimal.induct)
  case (1 n)
  show ?case
  proof (cases "n < 10")
    case True
    then have "decimal n = [''0123456789'' ! n]" by (subst decimal.simps) simp
    then show ?thesis
      using digit_char(3) [OF True "1.prems"] by simp
  next
    case False
    then have d: "decimal n = decimal (n div 10) @ [''0123456789'' ! (n mod 10)]"
      by (subst decimal.simps) simp
    from False have "0 < n div 10" by simp
    from "1.IH" [OF False this] decimal_digits [of "n div 10"] show ?thesis
      unfolding d by simp
  qed
qed

subsection \<open>The end of the week\<close>

lemma MakeDay_civil: "MakeDay (civil n) (getDate (civil n) + k) = n + k"
  using civil_Day(2) [of n] by (simp add: MakeDay_def getDate_def Day_month_start)

lemma weekEnd_TimeValue:
  "weekEnd LocalTZA (TimeValue tv) =
     TimeClip (UTC LocalTZA (LocalTime LocalTZA tv + 6 * msPerDay))"
proof -
  define t where "t = LocalTime LocalTZA tv"
  have "(t div msPerDay + 6) * msPerDay + t mod msPerDay
          = (t div msPerDay * msPerDay + t mod msPerDay) + 6 * msPerDay"
    by (simp add: algebra_simps)
  also have "\<dots> = t + 6 * msPerDay"
    by (simp only: div_mult_mod_eq)
  finally have n: "(t div msPerDay + 6) * msPerDay + t mod msPerDay = t + 6 * msPerDay" .
  show ?thesis
    unfolding weekEnd_def Date_getDate_def Date_setDate_def local_date_def
    by (simp add: Let_def MakeDay_civil t_def [symmetric] n)
qed

lemma local_date_of_Day:
  assumes "valid_date d" and "LocalTime LocalTZA t div msPerDay = Day d"
  shows "local_date LocalTZA t = d"
  unfolding local_date_def assms(2) using assms(1) by (rule civil_of_Day)

lemma en_US_long_date_shape:
  assumes "valid_date f"
  shows "\<exists>D Y. en_US_long_date f =
             [''January'', ''February'', ''March'', ''April'', ''May'', ''June'', ''July'',
              ''August'', ''September'', ''October'', ''November'', ''December'']
               ! monthIndex f @ '' '' @ D @ '', '' @ Y
           \<and> D \<noteq> [] \<and> set D \<subseteq> set ''0123456789'' \<and> hd D \<noteq> CHR ''0''
           \<and> decimal_value D = dayOfMonth f
           \<and> Y \<noteq> [] \<and> set Y \<subseteq> set ''0123456789'' \<and> hd Y \<noteq> CHR ''0''
           \<and> int (decimal_value Y) = (if fullYear f > 0 then fullYear f else 1 - fullYear f)"
proof -
  define y where "y = nat (if fullYear f > 0 then fullYear f else 1 - fullYear f)"
  from assms have d: "0 < dayOfMonth f" by (simp add: valid_date_def)
  have y: "0 < y" "int y = (if fullYear f > 0 then fullYear f else 1 - fullYear f)"
    by (simp_all add: y_def)
  have "en_US_long_date f =
          [''January'', ''February'', ''March'', ''April'', ''May'', ''June'', ''July'',
           ''August'', ''September'', ''October'', ''November'', ''December'']
            ! monthIndex f @ '' '' @ decimal (dayOfMonth f) @ '', '' @ decimal y"
    by (simp add: en_US_long_date_def monthNames_def y_def)
  with decimal_digits [of "dayOfMonth f"] decimal_digits [of y]
    decimal_no_leading_zero [OF d] decimal_no_leading_zero [OF y(1)]
    decimal_value_decimal [of "dayOfMonth f"] decimal_value_decimal [of y] y(2)
  show ?thesis by metis
qed

subsection \<open>The prompt\<close>

lemma sublist_in_rest:
  assumes "sublist xs seg" and "prompt_rest = before @ seg @ after"
  shows "sublist xs (buildMarketEventsPrompt LocalTZA weekStart)"
proof -
  from assms(1) obtain p s where seg: "seg = p @ xs @ s"
    by (auto simp: sublist_def)
  have "buildMarketEventsPrompt LocalTZA weekStart =
          (prompt_intro @ formatDate LocalTZA weekStart @ '' to ''
             @ formatDate LocalTZA (weekEnd LocalTZA weekStart) @ before @ p)
          @ xs @ (s @ after)"
    by (simp add: buildMarketEventsPrompt_def assms(2) seg)
  then show ?thesis
    unfolding sublist_def by blast
qed

lemma valid_types_line:
  "sublist (''Valid event types: ''
            @ join '', '' (map (\<lambda>t. [CHR 0x22] @ t @ [CHR 0x22]) validTypes))
     prompt_valid_types"
  by (simp add: prompt_valid_types_def validTypes_def)

lemma format_line: "sublist ''Format your response as a valid JSON array'' prompt_format"
  by (simp add: prompt_format_def)

lemma request_line: "sublist ''Generate 10-15 events'' prompt_request"
  by (simp add: prompt_request_def)

lemma example_fields:
  "\<forall>f\<in>set [''date'', ''event'', ''type'', ''description'', ''significance'', ''marketSentiment''].
     sublist ([CHR 0x22] @ f @ [CHR 0x22, CHR '':'']) prompt_example"
  by (simp add: prompt_example_def sublist_Cons_right)

lemma week_range_in_prompt:
  "sublist (''THIS WEEK ('' @ formatDate LocalTZA weekStart @ '' to ''
            @ formatDate LocalTZA (weekEnd LocalTZA weekStart) @ '').'')
     (buildMarketEventsPrompt LocalTZA weekStart)"
proof -
  have i: "prompt_intro =
      (''You are a financial analyst researching CURRENT market-moving '' @
       ''events. Use web_search and x_search tools to find real-time '' @
       ''information about significant events happening '') @ ''THIS WEEK (''"
    by (simp add: prompt_intro_def)
  have c: "prompt_close = '').'' @ [CHR ''\<newline>'', CHR ''\<newline>'']"
    by (simp add: prompt_close_def)
  have "buildMarketEventsPrompt LocalTZA weekStart =
      (''You are a financial analyst researching CURRENT market-moving '' @
       ''events. Use web_search and x_search tools to find real-time '' @
       ''information about significant events happening '')
      @ (''THIS WEEK ('' @ formatDate LocalTZA weekStart @ '' to ''
            @ formatDate LocalTZA (weekEnd LocalTZA weekStart) @ '').'')
      @ ([CHR ''\<newline>'', CHR ''\<newline>''] @ prompt_research @ prompt_event_types
         @ prompt_fields @ prompt_format @ prompt_example @ prompt_valid_types @ prompt_request)"
    unfolding buildMarketEventsPrompt_def prompt_rest_def i c by simp
  then show ?thesis
    unfolding sublist_def by blast
qed

lemma prompt_fixed_text:
  "sublist (''Valid event types: ''
             @ join '', '' (map (\<lambda>t. [CHR 0x22] @ t @ [CHR 0x22]) validTypes))
     (buildMarketEventsPrompt LocalTZA weekStart)
   \<and> sublist ''Format your response as a valid JSON array''
       (buildMarketEventsPrompt LocalTZA weekStart)
   \<and> (\<forall>f\<in>set [''date'', ''event'', ''type'', ''description'', ''significance'',
                  ''marketSentiment''].
         sublist ([CHR 0x22] @ f @ [CHR 0x22, CHR '':''])
           (buildMarketEventsPrompt LocalTZA weekStart))
   \<and> sublist ''Generate 10-15 events'' (buildMarketEventsPrompt LocalTZA weekStart)"
proof -
  have types: "sublist (''Valid event types: ''
                   @ join '', '' (map (\<lambda>t. [CHR 0x22] @ t @ [CHR 0x22]) validTypes))
           (buildMarketEventsPrompt LocalTZA weekStart)"
    by (rule sublist_in_rest [OF valid_types_line,
          of "prompt_close @ prompt_research @ prompt_event_types @ prompt_fields
              @ prompt_format @ prompt_example" prompt_request])
       (simp add: prompt_rest_def)
  have fmt: "sublist ''Format your response as a valid JSON array''
           (buildMarketEventsPrompt LocalTZA weekStart)"
    by (rule sublist_in_rest [OF format_line,
          of "prompt_close @ prompt_research @ prompt_event_types @ prompt_fields"
             "prompt_example @ prompt_valid_types @ prompt_request"])
       (simp add: prompt_rest_def)
  have req: "sublist ''Generate 10-15 events'' (buildMarketEventsPrompt LocalTZA weekStart)"
    by (rule sublist_in_rest [OF request_line,
          of "prompt_close @ prompt_research @ prompt_event_types @ prompt_fields
              @ prompt_format @ prompt_example @ prompt_valid_types" "[]"])
       (simp add: prompt_rest_def)
  have fields: "sublist ([CHR 0x22] @ f @ [CHR 0x22, CHR '':''])
                  (buildMarketEventsPrompt LocalTZA weekStart)"
    if "f \<in> set [''date'', ''event'', ''type'', ''description'', ''significance'',
                  ''marketSentiment'']" for f
  proof -
    from that example_fields
    have "sublist ([CHR 0x22] @ f @ [CHR 0x22, CHR '':'']) prompt_example" by blast
    then show ?thesis
      by (rule sublist_in_rest [of _ _
            "prompt_close @ prompt_research @ prompt_event_types @ prompt_fields @ prompt_format"
            "prompt_valid_types @ prompt_request"])
         (simp add: prompt_rest_def)
  qed
  from types fmt req fields show ?thesis by blast
qed

text \<open>
  The two dates of the range, for a week whose sixth local day is reached.
\<close>

lemma week_dates_in_prompt:
  assumes "\<bar>tv\<bar> \<le> 8640000000000000"
    and "\<bar>UTC LocalTZA (LocalTime LocalTZA tv + 6 * msPerDay)\<bar> \<le> 8640000000000000"
    and "LocalTime LocalTZA (UTC LocalTZA (LocalTime LocalTZA tv + 6 * msPerDay)) div msPerDay
           = LocalTime LocalTZA tv div msPerDay + 6"
  shows "\<exists>u D1 Y1 D2 Y2.
      weekEnd LocalTZA (TimeValue tv) = TimeValue u
    \<and> valid_date (local_date LocalTZA tv) \<and> valid_date (local_date LocalTZA u)
    \<and> Day (local_date LocalTZA u) = Day (local_date LocalTZA tv) + 6
    \<and> sublist (''THIS WEEK ('' @ formatDate LocalTZA (TimeValue tv) @ '' to ''
                @ formatDate LocalTZA (TimeValue u) @ '').'')
        (buildMarketEventsPrompt LocalTZA (TimeValue tv))
    \<and> formatDate LocalTZA (TimeValue tv) =
          [''January'', ''February'', ''March'', ''April'', ''May'', ''June'', ''July'',
           ''August'', ''September'', ''October'', ''November'', ''December'']
            ! monthIndex (local_date LocalTZA tv) @ '' '' @ D1 @ '', '' @ Y1
    \<and> D1 \<noteq> [] \<and> set D1 \<subseteq> set ''0123456789'' \<and> hd D1 \<noteq> CHR ''0''
    \<and> decimal_value D1 = dayOfMonth (local_date LocalTZA tv)
    \<and> Y1 \<noteq> [] \<and> set Y1 \<subseteq> set ''0123456789'' \<and> hd Y1 \<noteq> CHR ''0''
    \<and> int (decimal_value Y1) =
          (if fullYear (local_date LocalTZA tv) > 0 then fullYear (local_date LocalTZA tv)
           else 1 - fullYear (local_date LocalTZA tv))
    \<and> formatDate LocalTZA (TimeValue u) =
          [''January'', ''February'', ''March'', ''April'', ''May'', ''June'', ''July'',
           ''August'', ''September'', ''October'', ''November'', ''December'']
            ! monthIndex (local_date LocalTZA u) @ '' '' @ D2 @ '', '' @ Y2
    \<and> D2 \<noteq> [] \<and> set D2 \<subseteq> set ''0123456789'' \<and> hd D2 \<noteq> CHR ''0''
    \<and> decimal_value D2 = dayOfMonth (local_date LocalTZA u)
    \<and> Y2 \<noteq> [] \<and> set Y2 \<subseteq> set ''0123456789'' \<and> hd Y2 \<noteq> CHR ''0''
    \<and> int (decimal_value Y2) =
          (if fullYear (local_date LocalTZA u) > 0 then fullYear (local_date LocalTZA u)
           else 1 - fullYear (local_date LocalTZA u))"
proof -
  define u where "u = UTC LocalTZA (LocalTime LocalTZA tv + 6 * msPerDay)"
  have we: "weekEnd LocalTZA (TimeValue tv) = TimeValue u"
    using assms(2) by (simp add: weekEnd_TimeValue TimeClip_def u_def)
  have v1: "valid_date (local_date LocalTZA tv)" and v2: "valid_date (local_date LocalTZA u)"
    by (simp_all add: local_date_def civil_Day(1))
  have six: "Day (local_date LocalTZA u) = Day (local_date LocalTZA tv) + 6"
    using assms(3) by (simp add: local_date_def civil_Day(2) u_def)
  have range: "sublist (''THIS WEEK ('' @ formatDate LocalTZA (TimeValue tv) @ '' to ''
                @ formatDate LocalTZA (TimeValue u) @ '').'')
        (buildMarketEventsPrompt LocalTZA (TimeValue tv))"
    using week_range_in_prompt [of LocalTZA "TimeValue tv"] unfolding we .
  have f1: "formatDate LocalTZA (TimeValue tv) = en_US_long_date (local_date LocalTZA tv)"
    and f2: "formatDate LocalTZA (TimeValue u) = en_US_long_date (local_date LocalTZA u)"
    by (simp_all add: formatDate_def)
  from en_US_long_date_shape [OF v1] obtain D1 Y1 where s1:
    "formatDate LocalTZA (TimeValue tv) =
          [''January'', ''February'', ''March'', ''April'', ''May'', ''June'', ''July'',
           ''August'', ''September'', ''October'', ''November'', ''December'']
            ! monthIndex (local_date LocalTZA tv) @ '' '' @ D1 @ '', '' @ Y1"
    "D1 \<noteq> []" "set D1 \<subseteq> set ''0123456789''" "hd D1 \<noteq> CHR ''0''"
    "decimal_value D1 = dayOfMonth (local_date LocalTZA tv)"
    "Y1 \<noteq> []" "set Y1 \<subseteq> set ''0123456789''" "hd Y1 \<noteq> CHR ''0''"
    "int (decimal_value Y1) =
          (if fullYear (local_date LocalTZA tv) > 0 then fullYear (local_date LocalTZA tv)
           else 1 - fullYear (local_date LocalTZA tv))"
    unfolding f1 by blast
  from en_US_long_date_shape [OF v2] obtain D2 Y2 where s2:
    "formatDate LocalTZA (TimeValue u) =
          [''January'', ''February'', ''March'', ''April'', ''May'', ''June'', ''July'',
           ''August'', ''September'', ''October'', ''November'', ''December'']
            ! monthIndex (local_date LocalTZA u) @ '' '' @ D2 @ '', '' @ Y2"
    "D2 \<noteq> []" "set D2 \<subseteq> set ''0123456789''" "hd D2 \<noteq> CHR ''0''"
    "decimal_value D2 = dayOfMonth (local_date LocalTZA u)"
    "Y2 \<noteq> []" "set Y2 \<subseteq> set ''0123456789''" "hd Y2 \<noteq> CHR ''0''"
    "int (decimal_value Y2) =
          (if fullYear (local_date LocalTZA u) > 0 then fullYear (local_date LocalTZA u)
           else 1 - fullYear (local_date LocalTZA u))"
    unfolding f2 by blast
  show ?thesis
    apply (rule exI [of _ u], rule exI [of _ D1], rule exI [of _ Y1],
           rule exI [of _ D2], rule exI [of _ Y2])
    apply (intro conjI)
    using we v1 v2 six range s1 s2 by blast+
qed

text \<open>
  Claim C9, as the code has it. The prompt is a function of its \<^verbatim>\<open>Date\<close> argument and of
  the time zone of the process. Let the argument be a valid \<^verbatim>\<open>Date\<close>, let the instant six
  local days later lie within the range of \<^verbatim>\<open>Date\<close>, and let that instant fall on the
  sixth local day after the argument's. Then the end of the week is that instant, its
  local calendar date is six days after the argument's, and the text names the range
  from the one to the other, each date printed as the English name of its month, a
  space, the day of the month in decimal, a comma, a space and the year in decimal.
  For every argument, valid or not, the text lists the seven canonical types, asks for
  a JSON array, shows each of the six field names as a key, and asks for 10 to 15
  events.
\<close>

theorem C9_prompt_states_week_and_contract:
  "(\<bar>tv\<bar> \<le> 8640000000000000
      \<and> \<bar>UTC LocalTZA (LocalTime LocalTZA tv + 6 * msPerDay)\<bar> \<le> 8640000000000000
      \<and> LocalTime LocalTZA (UTC LocalTZA (LocalTime LocalTZA tv + 6 * msPerDay)) div msPerDay
           = LocalTime LocalTZA tv div msPerDay + 6
    \<longrightarrow> (\<exists>u D1 Y1 D2 Y2.
          weekEnd LocalTZA (TimeValue tv) = TimeValue u
        \<and> valid_date (local_date LocalTZA tv) \<and> valid_date (local_date LocalTZA u)
        \<and> Day (local_date LocalTZA u) = Day (local_date LocalTZA tv) + 6
        \<and> sublist (''THIS WEEK ('' @ formatDate LocalTZA (TimeValue tv) @ '' to ''
                    @ formatDate LocalTZA (TimeValue u) @ '').'')
            (buildMarketEventsPrompt LocalTZA (TimeValue tv))
        \<and> formatDate LocalTZA (TimeValue tv) =
              [''January'', ''February'', ''March'', ''April'', ''May'', ''June'', ''July'',
               ''August'', ''September'', ''October'', ''November'', ''December'']
                ! monthIndex (local_date LocalTZA tv) @ '' '' @ D1 @ '', '' @ Y1
        \<and> D1 \<noteq> [] \<and> set D1 \<subseteq> set ''0123456789'' \<and> hd D1 \<noteq> CHR ''0''
        \<and> decimal_value D1 = dayOfMonth (local_date LocalTZA tv)
        \<and> Y1 \<noteq> [] \<and> set Y1 \<subseteq> set ''0123456789'' \<and> hd Y1 \<noteq> CHR ''0''
        \<and> int (decimal_value Y1) =
              (if fullYear (local_date LocalTZA tv) > 0 then fullYear (local_date LocalTZA tv)
               else 1 - fullYear (local_date LocalTZA tv))
        \<and> formatDate LocalTZA (TimeValue u) =
              [''January'', ''February'', ''March'', ''April'', ''May'', ''June'', ''July'',
               ''August'', ''September'', ''October'', ''November'', ''December'']
                ! monthIndex (local_date LocalTZA u) @ '' '' @ D2 @ '', '' @ Y2
        \<and> D2 \<noteq> [] \<and> set D2 \<subseteq> set ''0123456789'' \<and> hd D2 \<noteq> CHR ''0''
        \<and> decimal_value D2 = dayOfMonth (local_date LocalTZA u)
        \<and> Y2 \<noteq> [] \<and> set Y2 \<subseteq> set ''0123456789'' \<and> hd Y2 \<noteq> CHR ''0''
        \<and> int (decimal_value Y2) =
              (if fullYear (local_date LocalTZA u) > 0 then fullYear (local_date LocalTZA u)
               else 1 - fullYear (local_date LocalTZA u))))
   \<and> sublist (''Valid event types: ''
               @ join '', '' (map (\<lambda>t. [CHR 0x22] @ t @ [CHR 0x22]) validTypes))
       (buildMarketEventsPrompt LocalTZA weekStart)
   \<and> sublist ''Format your response as a valid JSON array''
       (buildMarketEventsPrompt LocalTZA weekStart)
   \<and> (\<forall>f\<in>set [''date'', ''event'', ''type'', ''description'', ''significance'',
                  ''marketSentiment''].
         sublist ([CHR 0x22] @ f @ [CHR 0x22, CHR '':''])
           (buildMarketEventsPrompt LocalTZA weekStart))
   \<and> sublist ''Generate 10-15 events'' (buildMarketEventsPrompt LocalTZA weekStart)"
  (is "(?H1 \<and> ?H2 \<and> ?H3 \<longrightarrow> ?dates) \<and> ?fixed")
proof (rule conjI)
  show "?H1 \<and> ?H2 \<and> ?H3 \<longrightarrow> ?dates"
  proof (rule impI)
    assume h: "?H1 \<and> ?H2 \<and> ?H3"
    from h have h1: ?H1 and h2: ?H2 and h3: ?H3 by blast+
    show ?dates by (rule week_dates_in_prompt [OF h1 h2 h3])
  qed
  show ?fixed by (rule prompt_fixed_text)
qed

subsection \<open>Three weeks\<close>

lemma days_before_examples:
  "days_before_month 2025 11 = 334" "days_before_month 2026 0 = 0"
  "days_before_month 2011 11 = 334" "days_before_month 275760 8 = 244"
  by (simp_all add: eval_nat_numeral DaysInMonth_def leap_year_def)

lemma Day_examples:
  "Day \<lparr>fullYear = 2025, monthIndex = 11, dayOfMonth = 28\<rparr> = 20450"
  "Day \<lparr>fullYear = 2026, monthIndex = 0, dayOfMonth = 3\<rparr> = 20456"
  "Day \<lparr>fullYear = 2025, monthIndex = 11, dayOfMonth = 27\<rparr> = 20449"
  "Day \<lparr>fullYear = 2011, monthIndex = 11, dayOfMonth = 24\<rparr> = 15332"
  "Day \<lparr>fullYear = 2011, monthIndex = 11, dayOfMonth = 31\<rparr> = 15339"
  "Day \<lparr>fullYear = 275760, monthIndex = 8, dayOfMonth = 10\<rparr> = 99999997"
  by (simp_all add: Day_def DayFromYear_def days_before_examples)

lemma valid_examples:
  "valid_date \<lparr>fullYear = 2025, monthIndex = 11, dayOfMonth = 28\<rparr>"
  "valid_date \<lparr>fullYear = 2026, monthIndex = 0, dayOfMonth = 3\<rparr>"
  "valid_date \<lparr>fullYear = 2025, monthIndex = 11, dayOfMonth = 27\<rparr>"
  "valid_date \<lparr>fullYear = 2011, monthIndex = 11, dayOfMonth = 24\<rparr>"
  "valid_date \<lparr>fullYear = 2011, monthIndex = 11, dayOfMonth = 31\<rparr>"
  "valid_date \<lparr>fullYear = 275760, monthIndex = 8, dayOfMonth = 10\<rparr>"
  by (simp_all add: valid_date_def DaysInMonth_def)

lemma long_date_examples:
  "en_US_long_date \<lparr>fullYear = 2025, monthIndex = 11, dayOfMonth = 28\<rparr> = ''December 28, 2025''"
  "en_US_long_date \<lparr>fullYear = 2026, monthIndex = 0, dayOfMonth = 3\<rparr> = ''January 3, 2026''"
  "en_US_long_date \<lparr>fullYear = 2025, monthIndex = 11, dayOfMonth = 27\<rparr> = ''December 27, 2025''"
  "en_US_long_date \<lparr>fullYear = 2011, monthIndex = 11, dayOfMonth = 24\<rparr> = ''December 24, 2011''"
  "en_US_long_date \<lparr>fullYear = 2011, monthIndex = 11, dayOfMonth = 31\<rparr> = ''December 31, 2011''"
  "en_US_long_date \<lparr>fullYear = 275760, monthIndex = 8, dayOfMonth = 10\<rparr> = ''September 10, 275760''"
  by (simp_all add: en_US_long_date_def monthNames_def decimal.simps)

lemma local_date_examples:
  "local_date (fixed_zone (- 18000000)) 1766898000000
     = \<lparr>fullYear = 2025, monthIndex = 11, dayOfMonth = 28\<rparr>"
  "local_date (fixed_zone (- 18000000)) 1767416400000
     = \<lparr>fullYear = 2026, monthIndex = 0, dayOfMonth = 3\<rparr>"
  "local_date (fixed_zone (- 36000000)) 1766898000000
     = \<lparr>fullYear = 2025, monthIndex = 11, dayOfMonth = 27\<rparr>"
  "local_date dateline_zone 1324720800000
     = \<lparr>fullYear = 2011, monthIndex = 11, dayOfMonth = 24\<rparr>"
  "local_date dateline_zone 1325239200000
     = \<lparr>fullYear = 2011, monthIndex = 11, dayOfMonth = 31\<rparr>"
  "local_date (fixed_zone 0) 8639999740800000
     = \<lparr>fullYear = 275760, monthIndex = 8, dayOfMonth = 10\<rparr>"
  by (rule local_date_of_Day,
      simp_all add: valid_examples Day_examples LocalTime_def fixed_zone_def dateline_zone_def
        msPerDay_def)+

lemma weekEnd_examples:
  "weekEnd (fixed_zone (- 18000000)) (TimeValue 1766898000000) = TimeValue 1767416400000"
  "weekEnd dateline_zone (TimeValue 1324720800000) = TimeValue 1325239200000"
  "weekEnd (fixed_zone 0) (TimeValue 8639999740800000) = InvalidDate"
  by (simp_all add: weekEnd_TimeValue TimeClip_def UTC_def LocalTime_def fixed_zone_def
        dateline_zone_def msPerDay_def)

text \<open>
  In a zone of constant offset, the instant six local days later always falls on the
  sixth local day.
\<close>

lemma fixed_zone_sixth_day:
  "LocalTime (fixed_zone offset)
       (UTC (fixed_zone offset) (LocalTime (fixed_zone offset) tv + 6 * msPerDay)) div msPerDay
     = LocalTime (fixed_zone offset) tv div msPerDay + 6"
proof -
  have "(tv + 6 * msPerDay + offset) div msPerDay = (tv + offset) div msPerDay + 6"
    by (simp add: msPerDay_def)
  then show ?thesis by (simp add: LocalTime_def UTC_def fixed_zone_def)
qed

text \<open>
  Three valid arguments for which the text is not the week of the claim. Where the
  calendar of the zone skips 30 December 2011, the week from 24 December ends on 31
  December, seven days later. At the end of the range of \<^verbatim>\<open>Date\<close>, the week from 10
  September 275760 ends at the Invalid Date, and the text says so. And one instant
  gives the week from 28 December 2025 in a zone five hours behind UTC, and the week
  from 27 December in a zone ten hours behind, so the text is not a function of the
  argument alone.
\<close>

theorem C9_counterexample:
  "\<bar>1324720800000\<bar> \<le> (8640000000000000::int)
   \<and> formatDate dateline_zone (TimeValue 1324720800000) = ''December 24, 2011''
   \<and> weekEnd dateline_zone (TimeValue 1324720800000) = TimeValue 1325239200000
   \<and> formatDate dateline_zone (TimeValue 1325239200000) = ''December 31, 2011''
   \<and> Day (local_date dateline_zone 1325239200000)
       = Day (local_date dateline_zone 1324720800000) + 7
   \<and> sublist ''THIS WEEK (December 24, 2011 to December 31, 2011).''
       (buildMarketEventsPrompt dateline_zone (TimeValue 1324720800000))
   \<and> \<bar>8639999740800000\<bar> \<le> (8640000000000000::int)
   \<and> formatDate (fixed_zone 0) (TimeValue 8639999740800000) = ''September 10, 275760''
   \<and> weekEnd (fixed_zone 0) (TimeValue 8639999740800000) = InvalidDate
   \<and> sublist ''THIS WEEK (September 10, 275760 to Invalid Date).''
       (buildMarketEventsPrompt (fixed_zone 0) (TimeValue 8639999740800000))
   \<and> formatDate (fixed_zone (- 18000000)) (TimeValue 1766898000000) = ''December 28, 2025''
   \<and> formatDate (fixed_zone (- 36000000)) (TimeValue 1766898000000) = ''December 27, 2025''
   \<and> buildMarketEventsPrompt (fixed_zone (- 18000000)) (TimeValue 1766898000000)
       \<noteq> buildMarketEventsPrompt (fixed_zone (- 36000000)) (TimeValue 1766898000000)"
proof -
  have e: "formatDate (fixed_zone (- 18000000)) (TimeValue 1766898000000) = ''December 28, 2025''"
    and f: "formatDate (fixed_zone (- 36000000)) (TimeValue 1766898000000) = ''December 27, 2025''"
    by (simp_all add: formatDate_def local_date_examples long_date_examples)
  have zones: "buildMarketEventsPrompt (fixed_zone (- 18000000)) (TimeValue 1766898000000)
       \<noteq> buildMarketEventsPrompt (fixed_zone (- 36000000)) (TimeValue 1766898000000)"
    by (simp add: buildMarketEventsPrompt_def e f)
  have a: "formatDate dateline_zone (TimeValue 1324720800000) = ''December 24, 2011''"
    and b: "formatDate dateline_zone (TimeValue 1325239200000) = ''December 31, 2011''"
    and c: "formatDate (fixed_zone 0) (TimeValue 8639999740800000) = ''September 10, 275760''"
    and d: "formatDate (fixed_zone 0) InvalidDate = ''Invalid Date''"
    by (simp_all add: formatDate_def local_date_examples long_date_examples)
  have seven: "Day (local_date dateline_zone 1325239200000)
       = Day (local_date dateline_zone 1324720800000) + 7"
    by (simp add: local_date_examples Day_examples)
  have p1: "sublist ''THIS WEEK (December 24, 2011 to December 31, 2011).''
       (buildMarketEventsPrompt dateline_zone (TimeValue 1324720800000))"
    using week_range_in_prompt [of dateline_zone "TimeValue 1324720800000"]
    by (simp add: weekEnd_examples a b)
  have p2: "sublist ''THIS WEEK (September 10, 275760 to Invalid Date).''
       (buildMarketEventsPrompt (fixed_zone 0) (TimeValue 8639999740800000))"
    using week_range_in_prompt [of "fixed_zone 0" "TimeValue 8639999740800000"]
    by (simp add: weekEnd_examples c d)
  from a b c e f seven p1 p2 zones weekEnd_examples(2,3) show ?thesis by simp
qed

text \<open>
  The week from 28 December 2025, in a zone five hours behind UTC.
\<close>

theorem C9_prompt_states_week_and_contract_witness:
  "\<bar>1766898000000\<bar> \<le> (8640000000000000::int)
   \<and> \<bar>UTC (fixed_zone (- 18000000))
        (LocalTime (fixed_zone (- 18000000)) 1766898000000 + 6 * msPerDay)\<bar>
       \<le> 8640000000000000
   \<and> LocalTime (fixed_zone (- 18000000))
         (UTC (fixed_zone (- 18000000))
            (LocalTime (fixed_zone (- 18000000)) 1766898000000 + 6 * msPerDay)) div msPerDay
       = LocalTime (fixed_zone (- 18000000)) 1766898000000 div msPerDay + 6
   \<and> weekEnd (fixed_zone (- 18000000)) (TimeValue 1766898000000) = TimeValue 1767416400000
   \<and> formatDate (fixed_zone (- 18000000)) (TimeValue 1766898000000) = ''December 28, 2025''
   \<and> formatDate (fixed_zone (- 18000000)) (TimeValue 1767416400000) = ''January 3, 2026''
   \<and> sublist ''THIS WEEK (December 28, 2025 to January 3, 2026).''
       (buildMarketEventsPrompt (fixed_zone (- 18000000)) (TimeValue 1766898000000))
   \<and> sublist ''Generate 10-15 events''
       (buildMarketEventsPrompt (fixed_zone (- 18000000)) (TimeValue 1766898000000))"
proof -
  let ?z = "fixed_zone (- 18000000)"
  have h1: "\<bar>1766898000000\<bar> \<le> (8640000000000000::int)" by simp
  have h2: "\<bar>UTC ?z (LocalTime ?z 1766898000000 + 6 * msPerDay)\<bar> \<le> 8640000000000000"
    by (simp add: UTC_def LocalTime_def fixed_zone_def msPerDay_def)
  have h3: "LocalTime ?z (UTC ?z (LocalTime ?z 1766898000000 + 6 * msPerDay)) div msPerDay
              = LocalTime ?z 1766898000000 div msPerDay + 6"
    by (simp add: UTC_def LocalTime_def fixed_zone_def msPerDay_def)
  have a: "formatDate ?z (TimeValue 1766898000000) = ''December 28, 2025''"
    and b: "formatDate ?z (TimeValue 1767416400000) = ''January 3, 2026''"
    by (simp_all add: formatDate_def local_date_examples long_date_examples)
  note inst = C9_prompt_states_week_and_contract
    [where tv = 1766898000000 and LocalTZA = ?z and weekStart = "TimeValue 1766898000000"]
  from inst have g: "sublist ''Generate 10-15 events''
        (buildMarketEventsPrompt ?z (TimeValue 1766898000000))"
    by blast
  from mp [OF conjunct1 [OF inst] conjI [OF h1 conjI [OF h2 h3]]] obtain u where
    u: "weekEnd ?z (TimeValue 1766898000000) = TimeValue u"
    and r: "sublist (''THIS WEEK ('' @ formatDate ?z (TimeValue 1766898000000) @ '' to ''
                @ formatDate ?z (TimeValue u) @ '').'')
        (buildMarketEventsPrompt ?z (TimeValue 1766898000000))"
    by blast
  from u have "u = 1767416400000" by (simp add: weekEnd_examples)
  with r have "sublist ''THIS WEEK (December 28, 2025 to January 3, 2026).''
       (buildMarketEventsPrompt ?z (TimeValue 1766898000000))"
    by (simp add: a b)
  with h1 h2 h3 a b g weekEnd_examples(1) show ?thesis by simp
qed

end
